theory Spec2Isabelle
  imports Complex_Main "HOL-Library.Sublist" "HOL-Library.AList" "HOL-Library.FSet"
begin

section \<open>Python values\<close>

text \<open>
  The generation pipeline of AvA is Python. Its strings are modelled as \<^typ>\<open>string\<close>
  restricted to ASCII text (the two emoji of the coordinator's log messages are written
  as their UTF-8 bytes), its dictionaries as association lists in insertion order
  (\<^const>\<open>AList.update\<close> overwrites a key in place or appends a new one, as a Python
  \<^verbatim>\<open>dict\<close> does; \<^const>\<open>map_of\<close> is the lookup), its sets of strings as finite
  sets, and its exceptions as values of \<open>py_error\<close>: a function that can raise returns
  \<open>py_error + 'a\<close>, with \<open>Inl\<close> the exception. Coroutines are awaited one after
  the other, so \<^verbatim>\<open>async\<close>/\<^verbatim>\<open>await\<close> is sequential composition.
\<close>

datatype py_error =
    IndexError
  | KeyError string
  | Raised string


definition squote :: char where
  "squote = CHR 0x27"

definition dquote :: char where
  "dquote = CHR 0x22"

definition backtick :: char where
  "backtick = CHR 0x60"

definition nl :: char where
  "nl = CHR 0x0A"

text \<open>
  \<^verbatim>\<open>repr(s)\<close> of an ASCII string: double quotes when the string has an apostrophe and
  no double quote, single quotes otherwise; the backslash and the chosen quote are
  escaped, tab, line feed and carriage return are written \<^verbatim>\<open>\t\<close>, \<^verbatim>\<open>\n\<close>,
  \<^verbatim>\<open>\r\<close>, and every other control character as \<^verbatim>\<open>\xhh\<close>.
\<close>

definition backslash :: char where
  "backslash = CHR 0x5C"

definition repr_char :: "char \<Rightarrow> char \<Rightarrow> string" where
  "repr_char quote c =
     (if c = quote \<or> c = backslash then [backslash, c]
      else if c = CHR 0x09 then [backslash, CHR ''t'']
      else if c = nl then [backslash, CHR ''n'']
      else if c = CHR 0x0D then [backslash, CHR ''r'']
      else
        (let n = (of_char c :: nat)
         in if n < 32 \<or> n = 127
            then [backslash, CHR ''x'', ''0123456789abcdef'' ! (n div 16),
                  ''0123456789abcdef'' ! (n mod 16)]
            else [c]))"

definition repr :: "string \<Rightarrow> string" where
  "repr s =
     (let quote = (if squote \<in> set s \<and> dquote \<notin> set s then dquote else squote)
      in [quote] @ concat (map (repr_char quote) s) @ [quote])"

text \<open>
  \<^verbatim>\<open>str(e)\<close> of an exception: the text that an f-string shows for it. For a
  \<^verbatim>\<open>KeyError\<close> it is the \<^verbatim>\<open>repr\<close> of the key.
\<close>

fun str_of_error :: "py_error \<Rightarrow> string" where
  "str_of_error IndexError = ''list index out of range''"
| "str_of_error (KeyError k) = repr k"
| "str_of_error (Raised msg) = msg"

type_synonym ('k, 'v) dict = "('k \<times> 'v) list"

definition dict_contains :: "('k, 'v) dict \<Rightarrow> 'k \<Rightarrow> bool" where
  "dict_contains d k = (map_of d k \<noteq> None)"

text \<open>\<^verbatim>\<open>d[k]\<close> raises \<^verbatim>\<open>KeyError\<close> on a missing key.\<close>

definition subscript :: "(string, 'v) dict \<Rightarrow> string \<Rightarrow> py_error + 'v" where
  "subscript d k = (case map_of d k of None \<Rightarrow> Inl (KeyError k) | Some v \<Rightarrow> Inr v)"

text \<open>\<^verbatim>\<open>d.update(e)\<close>: the entries of \<open>e\<close> are stored one by one, in the order of \<open>e\<close>.\<close>

definition dict_update :: "('k, 'v) dict \<Rightarrow> ('k, 'v) dict \<Rightarrow> ('k, 'v) dict" where
  "dict_update d e = fold (\<lambda>(k, v). AList.update k v) e d"

subsection \<open>Strings\<close>

text \<open>
  \<^verbatim>\<open>str.isspace\<close> on ASCII: tab, line feed, vertical tab, form feed, carriage return,
  the four separators 0x1C to 0x1F, and the space.
\<close>

definition isspace :: "char \<Rightarrow> bool" where
  "isspace c = (let n = (of_char c :: nat) in (9 \<le> n \<and> n \<le> 13) \<or> (28 \<le> n \<and> n \<le> 32))"

definition strip :: "string \<Rightarrow> string" where
  "strip s = rev (dropWhile isspace (rev (dropWhile isspace s)))"

definition is_upper :: "char \<Rightarrow> bool" where
  "is_upper c = (let n = (of_char c :: nat) in 65 \<le> n \<and> n \<le> 90)"

definition is_lower :: "char \<Rightarrow> bool" where
  "is_lower c = (let n = (of_char c :: nat) in 97 \<le> n \<and> n \<le> 122)"

definition is_digit :: "char \<Rightarrow> bool" where
  "is_digit c = (let n = (of_char c :: nat) in 48 \<le> n \<and> n \<le> 57)"

text \<open>
  \<^verbatim>\<open>str.lower\<close> and \<^verbatim>\<open>str.upper\<close> on one ASCII character: a letter moves to the same
  position of the other alphabet, every other character stays.
\<close>

definition lower_char :: "char \<Rightarrow> char" where
  "lower_char c =
     (if is_upper c then ''abcdefghijklmnopqrstuvwxyz'' ! ((of_char c :: nat) - 65) else c)"

definition upper_char :: "char \<Rightarrow> char" where
  "upper_char c =
     (if is_lower c then ''ABCDEFGHIJKLMNOPQRSTUVWXYZ'' ! ((of_char c :: nat) - 97) else c)"

definition lower :: "string \<Rightarrow> string" where
  "lower s = map lower_char s"

text \<open>\<^verbatim>\<open>str.capitalize\<close>: the first character in upper case, the rest in lower case.\<close>

definition capitalize :: "string \<Rightarrow> string" where
  "capitalize s = (case s of [] \<Rightarrow> [] | c # cs \<Rightarrow> upper_char c # lower cs)"

text \<open>\<^verbatim>\<open>str.isalpha\<close>: at least one character, and letters only.\<close>

definition isalpha :: "string \<Rightarrow> bool" where
  "isalpha s = (s \<noteq> [] \<and> list_all (\<lambda>c. is_upper c \<or> is_lower c) s)"

text \<open>\<^verbatim>\<open>sub in s\<close> on strings: \<open>sub\<close> occurs in \<open>s\<close> as a contiguous block.\<close>

fun contains :: "string \<Rightarrow> string \<Rightarrow> bool" where
  "contains [] sub = (sub = [])"
| "contains (c # cs) sub = (prefix sub (c # cs) \<or> contains cs sub)"

text \<open>
  \<^verbatim>\<open>s.replace(old, new)\<close>: every occurrence of \<open>old\<close>, found from the left and not
  overlapping, becomes \<open>new\<close>. The source only ever passes a non-empty \<open>old\<close>.
\<close>

function replace :: "string \<Rightarrow> string \<Rightarrow> string \<Rightarrow> string" where
  "replace old new [] = []"
| "replace old new (c # cs) =
     (if old \<noteq> [] \<and> prefix old (c # cs)
      then new @ replace old new (drop (length old) (c # cs))
      else c # replace old new cs)"
  by pat_completeness auto
termination
  by (relation "measure (\<lambda>(old, new, s). length s)") (auto simp: Suc_le_eq)

text \<open>
  \<^verbatim>\<open>s.split(sep)\<close> with a separator: the pieces between the occurrences of \<open>sep\<close>
  (one more piece than occurrences). \<open>cur\<close> holds the current piece, reversed.
\<close>

function split_acc :: "string \<Rightarrow> string \<Rightarrow> string \<Rightarrow> string list" where
  "split_acc sep cur [] = [rev cur]"
| "split_acc sep cur (c # cs) =
     (if sep \<noteq> [] \<and> prefix sep (c # cs)
      then rev cur # split_acc sep [] (drop (length sep) (c # cs))
      else split_acc sep (c # cur) cs)"
  by pat_completeness auto
termination
  by (relation "measure (\<lambda>(sep, cur, s). length s)") (auto simp: Suc_le_eq)

definition split_on :: "string \<Rightarrow> string \<Rightarrow> string list" where
  "split_on sep s = split_acc sep [] s"

text \<open>\<^verbatim>\<open>s.split()\<close> without a separator: the maximal runs of non-whitespace characters.\<close>

fun split_ws_acc :: "string \<Rightarrow> string \<Rightarrow> string list" where
  "split_ws_acc cur [] = (if cur = [] then [] else [rev cur])"
| "split_ws_acc cur (c # cs) =
     (if isspace c
      then (if cur = [] then split_ws_acc [] cs else rev cur # split_ws_acc [] cs)
      else split_ws_acc (c # cur) cs)"

definition split_whitespace :: "string \<Rightarrow> string list" where
  "split_whitespace s = split_ws_acc [] s"

text \<open>\<^verbatim>\<open>str(n)\<close> of a natural number, in decimal.\<close>

fun str_of_nat :: "nat \<Rightarrow> string" where
  "str_of_nat n =
     (if n < 10 then [''0123456789'' ! n]
      else str_of_nat (n div 10) @ [''0123456789'' ! (n mod 10)])"

declare str_of_nat.simps [simp del]

subsection \<open>Paths\<close>

text \<open>
  \<^verbatim>\<open>pathlib.Path(p)\<close> on a POSIX path: the name is the last component, empty components
  and \<^verbatim>\<open>.\<close> components being dropped; the suffix starts at the last dot of the name
  when that dot is neither its first nor its last character, and the stem is the name
  without the suffix.
\<close>

definition Path_name :: "string \<Rightarrow> string" where
  "Path_name p =
     (case filter (\<lambda>c. c \<noteq> [] \<and> c \<noteq> ''.'') (split_on ''/'' p) of
        [] \<Rightarrow> []
      | c # cs \<Rightarrow> last (c # cs))"

definition rfind :: "char \<Rightarrow> string \<Rightarrow> nat option" where
  "rfind c s =
     (if c \<in> set s then Some (length s - 1 - length (takeWhile (\<lambda>x. x \<noteq> c) (rev s)))
      else None)"

definition Path_suffix :: "string \<Rightarrow> string" where
  "Path_suffix p =
     (let name = Path_name p in
      case rfind (CHR ''.'') name of
        None \<Rightarrow> []
      | Some i \<Rightarrow> if 0 < i \<and> i + 1 < length name then drop i name else [])"

definition Path_stem :: "string \<Rightarrow> string" where
  "Path_stem p =
     (let name = Path_name p in
      case rfind (CHR ''.'') name of
        None \<Rightarrow> name
      | Some i \<Rightarrow> if 0 < i \<and> i + 1 < length name then take i name else name)"

section \<open>The data model\<close>

text \<open>
  A plan is the dictionary \<^verbatim>\<open>{"files": [{"filename": ..., "purpose": ...}, ...],
  "dependencies": [...]}\<close>. The key \<^verbatim>\<open>files\<close> may be missing (\<open>None\<close>): the context
  manager reads it with \<^verbatim>\<open>plan.get("files", [])\<close>, the coordinator with
  \<^verbatim>\<open>plan['files']\<close>. \<open>plan_dependencies\<close> holds the string entries of
  \<^verbatim>\<open>plan.get("dependencies", [])\<close>, the only ones the code reads. A file entry is a
  dictionary of strings, so that a missing \<^verbatim>\<open>filename\<close> or \<^verbatim>\<open>purpose\<close> is the
  \<^verbatim>\<open>KeyError\<close> it is in the source.
\<close>

type_synonym file_info = "(string, string) dict"

record Plan =
  files :: "file_info list option"
  plan_dependencies :: "string list"

text \<open>
  One entry of the generation session: the dictionary \<^verbatim>\<open>{"purpose", "status",
  "dependencies"}\<close> that \<^verbatim>\<open>build_generation_context\<close> creates, to which
  \<^verbatim>\<open>update_session_context\<close> adds the key \<^verbatim>\<open>generated_code\<close>.
\<close>

record session_entry =
  purpose :: string
  status :: string
  dependencies :: "string list"
  generated_code :: "string option"

type_synonym session = "(string, session_entry) dict"

text \<open>
  The dataclass \<^verbatim>\<open>GenerationContext\<close>. The session dictionary is a Python object that
  is mutated in place and shared between context values, so the field
  \<open>generation_session\<close> is a reference: an index into the store \<open>sessions\<close> of the
  world below. The other dictionaries are never mutated once a context holds them
  (\<^verbatim>\<open>update_session_context\<close> copies the project index before it merges), so they
  are plain values.
\<close>

record GenerationContext =
  plan :: Plan
  project_index :: "(string, string) dict"
  living_design_context :: "(string, string) dict"
  dependency_order :: "string list"
  generation_session :: nat
  rag_context :: string
  relevance_scores :: "(string, real) dict"
  existing_files :: "(string, string) dict"

text \<open>
  What a run does to the outside, in order: events emitted on the event bus (the name
  and the arguments as text), lines printed, tracebacks printed, and the calls made to
  the model client.
\<close>

datatype effect =
    Emit string "string list"
  | Print string
  | PrintExc py_error
  | GetModelForRole string
  | StreamChat string string string string

record world =
  sessions :: "session list"
  trace :: "effect list"

text \<open>
  The collaborators that are not part of these two modules are parameters of the model:
  \<^item> the project indexer (\<open>get_symbols_from_content\<close>, \<open>build_index\<close>), which may raise
    (the getters of the service manager that hand out the indexer and the project
    manager do not);
  \<^item> \<open>active_project_path\<close>: \<open>Some\<close> path when \<^verbatim>\<open>project_manager and
    project_manager.active_project_path\<close> is truthy;
  \<^item> the dependency planner, which reads a context and its session and returns the
    filenames of the specs in generation order, or raises;
  \<^item> the model client: \<open>get_model_for_role\<close> returns a provider and a model (either
    may be \<^verbatim>\<open>None\<close>), \<open>stream_chat\<close> yields chunks and then possibly raises; what
    the client answers may depend on everything that happened before, so both take the
    trace so far;
  \<^item> Python's built-in \<open>hash\<close> on strings: it is salted anew for every interpreter
    process, so it is the same function during one run and another one in the next;
    with it \<open>set_order\<close>, the order in which \<^verbatim>\<open>list(set(xs))\<close> enumerates the
    distinct strings of \<open>xs\<close> (given in the order of their first occurrence);
  \<^item>
    \<^verbatim>\<open>str.format\<close> with keyword arguments (which raises on an unknown
    placeholder), \<^verbatim>\<open>json.dumps(..., indent=2)\<close> on a plan and on a dictionary of
    strings, and \<^verbatim>\<open>textwrap.dedent\<close>;
  \<^item> \<open>rnd\<close>: the rounding of a real number to the nearest float, so that the float
    quotient of two integers is \<open>rnd (a / b)\<close> and the float product \<open>rnd (x * y)\<close>;
  \<^item> the four prompt templates imported from \<^verbatim>\<open>src.ava.prompts\<close>.
\<close>

record env =
  get_symbols_from_content :: "string \<Rightarrow> string \<Rightarrow> py_error + (string, string) dict"
  build_index :: "string \<Rightarrow> py_error + (string, string) dict"
  active_project_path :: "string option"
  plan_generation_order :: "GenerationContext \<Rightarrow> session \<Rightarrow> py_error + string list"
  get_model_for_role :: "effect list \<Rightarrow> string \<Rightarrow> py_error + (string option \<times> string option)"
  stream_chat ::
    "effect list \<Rightarrow> string \<Rightarrow> string \<Rightarrow> string \<Rightarrow> string \<Rightarrow> string list \<times> py_error option"
  hash :: "string \<Rightarrow> int"
  set_order :: "string list \<Rightarrow> string list"
  format :: "string \<Rightarrow> (string, string) dict \<Rightarrow> py_error + string"
  json_dumps_plan :: "Plan \<Rightarrow> string"
  json_dumps :: "(string, string) dict \<Rightarrow> string"
  dedent :: "string \<Rightarrow> string"
  rnd :: "real \<Rightarrow> real"
  CODER_PROMPT :: string
  SIMPLE_FILE_PROMPT :: string
  GODOT_GDSCRIPT_CODER_PROMPT :: string
  GODOT_GENERIC_FILE_PROMPT :: string

definition emit :: "string \<Rightarrow> string list \<Rightarrow> world \<Rightarrow> world" where
  "emit name args w = w\<lparr>trace := trace w @ [Emit name args]\<rparr>"

definition print :: "string \<Rightarrow> world \<Rightarrow> world" where
  "print line w = w\<lparr>trace := trace w @ [Print line]\<rparr>"

definition print_exc :: "py_error \<Rightarrow> world \<Rightarrow> world" where
  "print_exc e w = w\<lparr>trace := trace w @ [PrintExc e]\<rparr>"

section \<open>The context manager\<close>

text \<open>
  \<^verbatim>\<open>ContextManager\<close> of \<^verbatim>\<open>src/ava/services/context_manager.py\<close>. A method whose
  Python name starts with an underscore keeps its name without the underscore.
\<close>

subsection \<open>\<^verbatim>\<open>_extract_file_dependencies\<close>\<close>

definition dependency_patterns :: "(string, string list) dict" where
  "dependency_patterns =
     [(''async'', [''asyncio'']), (''path'', [''pathlib'']), (''json'', [''json'']),
      (''typing'', [''typing'']), (''service'', [''ava.core.event_bus'']),
      (''manager'', [''pathlib'', ''typing'']), (''ui'', [''tkinter'', ''PySide6'']),
      (''web'', [''flask'', ''fastapi'']), (''database'', [''sqlite3'', ''sqlalchemy'']),
      (''api'', [''requests'', ''aiohttp''])]"

definition dict_get :: "(string, string) dict \<Rightarrow> string \<Rightarrow> string \<Rightarrow> string" where
  "dict_get d k dflt = (case map_of d k of None \<Rightarrow> dflt | Some v \<Rightarrow> v)"

text \<open>
  The source returns \<^verbatim>\<open>list(set(dependencies))\<close>: the distinct tags, in the order in
  which the interpreter enumerates the set.
\<close>

definition extract_file_dependencies :: "env \<Rightarrow> file_info \<Rightarrow> string list" where
  "extract_file_dependencies sv file_info =
     (let purpose = lower (dict_get file_info ''purpose'' []);
          filename = lower (dict_get file_info ''filename'' [])
      in set_order sv (remdups (concat (map snd
           (filter (\<lambda>(keyword, deps). contains purpose keyword \<or> contains filename keyword)
              dependency_patterns)))))"

subsection \<open>\<^verbatim>\<open>_extract_keywords_from_plan\<close>\<close>

definition keyword_words :: "string \<Rightarrow> string list" where
  "keyword_words s =
     map (\<lambda>word. lower (strip word))
       (filter (\<lambda>word. length word > 3 \<and> isalpha word) (split_whitespace s))"

definition extract_keywords_from_plan :: "Plan \<Rightarrow> string fset" where
  "extract_keywords_from_plan pl =
     (let keywords =
        fold (\<lambda>file_info keywords.
                let purpose = dict_get file_info ''purpose'' [];
                    filename = dict_get file_info ''filename'' [];
                    purpose_words = keyword_words purpose;
                    filename_words = keyword_words (replace ''_'' '' '' (replace ''.py'' [] filename))
                in (keywords |\<union>| fset_of_list purpose_words) |\<union>| fset_of_list filename_words)
          (case files pl of None \<Rightarrow> [] | Some fs \<Rightarrow> fs) {||}
      in fold (\<lambda>dep keywords. finsert (lower dep) keywords) (plan_dependencies pl) keywords)"

subsection \<open>\<^verbatim>\<open>_calculate_text_relevance\<close>\<close>

text \<open>
  \<open>matches / keyword_count\<close> and \<open>text_words / 100\<close> are float quotients of integers,
  the result a float product: each is the exact value rounded by \<open>r\<close>.
\<close>

definition calculate_text_relevance :: "(real \<Rightarrow> real) \<Rightarrow> string \<Rightarrow> string fset \<Rightarrow> real" where
  "calculate_text_relevance r text keywords =
     (if text = [] \<or> keywords = {||} then 0
      else
        let text_lower = lower text;
            matches = fcard (ffilter (\<lambda>keyword. contains text_lower keyword) keywords);
            text_words = length (split_whitespace text);
            keyword_count = fcard keywords
        in if text_words = 0 \<or> keyword_count = 0 then 0
           else
             let base_score = r (real matches / real keyword_count);
                 length_weight = min 1 (r (real text_words / 100))
             in r (base_score * length_weight))"

subsection \<open>\<^verbatim>\<open>_calculate_relevance_scores\<close>\<close>

definition calculate_relevance_scores ::
  "(real \<Rightarrow> real) \<Rightarrow> Plan \<Rightarrow> (string, string) dict \<Rightarrow> string \<Rightarrow> (string, real) dict" where
  "calculate_relevance_scores r pl index rag =
     (let plan_keywords = extract_keywords_from_plan pl;
          relevance_scores =
            fold (\<lambda>(module_name, module_content).
                    AList.update (''project_index:'' @ module_name)
                      (calculate_text_relevance r module_content plan_keywords))
              index []
      in if rag \<noteq> [] then
           fold (\<lambda>(i, chunk) scores.
                   if strip chunk \<noteq> [] then
                     AList.update (''rag_chunk:'' @ str_of_nat i)
                       (calculate_text_relevance r chunk plan_keywords) scores
                   else scores)
             (enumerate 0 (split_on ''--- Relevant Document Snippet'' rag))
             relevance_scores
         else relevance_scores)"

subsection \<open>\<^verbatim>\<open>build_generation_context\<close>\<close>

definition module_path_of :: "string \<Rightarrow> string" where
  "module_path_of filename = replace ''/'' ''.'' (replace ''.py'' [] filename)"

fun index_existing_files ::
  "env \<Rightarrow> (string, string) dict \<Rightarrow> (string, string) dict \<Rightarrow> py_error + (string, string) dict" where
  "index_existing_files sv [] initial_project_index = Inr initial_project_index"
| "index_existing_files sv ((rel_path, content) # rest) initial_project_index =
     (if suffix ''.py'' rel_path then
        (case get_symbols_from_content sv content (module_path_of rel_path) of
           Inl e \<Rightarrow> Inl e
         | Inr symbols_in_file \<Rightarrow>
             index_existing_files sv rest (dict_update initial_project_index symbols_in_file))
      else index_existing_files sv rest initial_project_index)"

definition initial_index ::
  "env \<Rightarrow> (string, string) dict option \<Rightarrow> py_error + (string, string) dict" where
  "initial_index sv existing =
     (case active_project_path sv of
        None \<Rightarrow> Inr []
      | Some path \<Rightarrow>
          (case existing of
             None \<Rightarrow> build_index sv path
           | Some [] \<Rightarrow> build_index sv path
           | Some (x # xs) \<Rightarrow> index_existing_files sv (x # xs) []))"

text \<open>
  The loop that fills the session dictionary \<open>r\<close>. The right-hand side of the
  assignment is evaluated before its target, so \<^verbatim>\<open>file_info["purpose"]\<close> is read
  before \<^verbatim>\<open>file_info["filename"]\<close>.
\<close>

fun plan_session ::
  "env \<Rightarrow> file_info list \<Rightarrow> nat \<Rightarrow> world \<Rightarrow> (py_error + unit) \<times> world" where
  "plan_session sv [] r w = (Inr (), w)"
| "plan_session sv (file_info # rest) r w =
     (case subscript file_info ''purpose'' of
        Inl e \<Rightarrow> (Inl e, w)
      | Inr p \<Rightarrow>
          (case subscript file_info ''filename'' of
             Inl e \<Rightarrow> (Inl e, w)
           | Inr filename \<Rightarrow>
               plan_session sv rest r
                 (w\<lparr>sessions := (sessions w)
                    [r := AList.update filename
                       \<lparr>purpose = p, status = ''planned'',
                        dependencies = extract_file_dependencies sv file_info,
                        generated_code = None\<rparr>
                       (sessions w ! r)]\<rparr>)))"

definition build_generation_context ::
  "env \<Rightarrow> Plan \<Rightarrow> string \<Rightarrow> (string, string) dict option \<Rightarrow> world
     \<Rightarrow> (py_error + GenerationContext) \<times> world" where
  "build_generation_context sv pl rag existing w =
     (case initial_index sv existing of
        Inl e \<Rightarrow> (Inl e, w)
      | Inr initial_project_index \<Rightarrow>
          (let r = length (sessions w);
               w1 = w\<lparr>sessions := sessions w @ [[]]\<rparr>
           in case plan_session sv (case files pl of None \<Rightarrow> [] | Some fs \<Rightarrow> fs) r w1 of
                (Inl e, w2) \<Rightarrow> (Inl e, w2)
              | (Inr u, w2) \<Rightarrow>
                  (Inr \<lparr>plan = pl,
                        project_index = initial_project_index,
                        living_design_context = [],
                        dependency_order = [],
                        generation_session = r,
                        rag_context = rag,
                        relevance_scores =
                          calculate_relevance_scores (rnd sv) pl initial_project_index rag,
                        existing_files = (case existing of None \<Rightarrow> [] | Some d \<Rightarrow> d)\<rparr>,
                   w2)))"

subsection \<open>\<^verbatim>\<open>update_session_context\<close>\<close>

text \<open>
  The body of the \<^verbatim>\<open>try\<close>. \<^verbatim>\<open>list(newly_generated_file.items())[0]\<close> raises
  \<^verbatim>\<open>IndexError\<close> on an empty dictionary. The session entry is updated in place, in
  the store, before the symbols are extracted.
\<close>

definition mark_completed :: "string \<Rightarrow> session_entry \<Rightarrow> session_entry" where
  "mark_completed code entry = entry\<lparr>status := ''completed'', generated_code := Some code\<rparr>"

text \<open>
  Lines 83 to 85: when the filename is a key of the session, its entry is marked
  completed and receives the code, in place in the store.
\<close>

definition record_completed :: "GenerationContext \<Rightarrow> string \<Rightarrow> string \<Rightarrow> world \<Rightarrow> world" where
  "record_completed context filename code w =
     (let r = generation_session context
      in if dict_contains (sessions w ! r) filename
         then w\<lparr>sessions := (sessions w)
                [r := AList.map_entry filename (mark_completed code) (sessions w ! r)]\<rparr>
         else w)"

definition update_session_context_try ::
  "env \<Rightarrow> GenerationContext \<Rightarrow> (string, string) dict \<Rightarrow> world
     \<Rightarrow> (py_error + GenerationContext) \<times> world" where
  "update_session_context_try sv context newly_generated_file w =
     (case newly_generated_file of
        [] \<Rightarrow> (Inl IndexError, w)
      | (filename, code) # others \<Rightarrow>
          (let w1 = record_completed context filename code w;
               updated_index = project_index context
           in if suffix ''.py'' filename then
                (case get_symbols_from_content sv code (module_path_of filename) of
                   Inl e \<Rightarrow> (Inl e, w1)
                 | Inr new_symbols \<Rightarrow>
                     (Inr \<lparr>plan = plan context,
                           project_index = dict_update updated_index new_symbols,
                           living_design_context = living_design_context context,
                           dependency_order = dependency_order context,
                           generation_session = generation_session context,
                           rag_context = rag_context context,
                           relevance_scores = relevance_scores context,
                           existing_files = existing_files context\<rparr>,
                      print (''[ContextManager] Updated symbol index with ''
                             @ str_of_nat (length new_symbols)
                             @ '' symbols from new file: '' @ filename) w1))
              else
                (Inr \<lparr>plan = plan context,
                      project_index = updated_index,
                      living_design_context = living_design_context context,
                      dependency_order = dependency_order context,
                      generation_session = generation_session context,
                      rag_context = rag_context context,
                      relevance_scores = relevance_scores context,
                      existing_files = existing_files context\<rparr>,
                 w1)))"

text \<open>
  The handler prints the failure and returns the context it was given. Its message
  reads \<^verbatim>\<open>list(newly_generated_file.keys())[0]\<close>, which raises again, out of the
  method, when the dictionary is empty.
\<close>

definition update_session_context ::
  "env \<Rightarrow> GenerationContext \<Rightarrow> (string, string) dict \<Rightarrow> world
     \<Rightarrow> (py_error + GenerationContext) \<times> world" where
  "update_session_context sv context newly_generated_file w =
     (case update_session_context_try sv context newly_generated_file w of
        (Inr context', w') \<Rightarrow> (Inr context', w')
      | (Inl e, w') \<Rightarrow>
          (case newly_generated_file of
             [] \<Rightarrow> (Inl IndexError, w')
           | (filename, code) # others \<Rightarrow>
               (Inr context,
                print_exc e
                  (print (''Error updating session context for '' @ filename @ '': ''
                          @ str_of_error e) w'))))"

section \<open>The generation coordinator\<close>

text \<open>\<^verbatim>\<open>src/ava/services/generation_coordinator.py\<close>.\<close>

subsection \<open>\<^verbatim>\<open>create_tscn_content\<close>\<close>

definition uid_number :: "env \<Rightarrow> string \<Rightarrow> string" where
  "uid_number sv s = str_of_nat (nat (\<bar>hash sv s\<bar> mod 10 ^ 10))"

definition create_tscn_content :: "env \<Rightarrow> string \<Rightarrow> string \<Rightarrow> string" where
  "create_tscn_content sv node_type script_path =
     (let script_uid = ''uid://b'' @ uid_number sv script_path
      in ''[gd_scene load_steps=2 format=3 uid='' @ [dquote] @ ''uid://b''
           @ uid_number sv (node_type @ script_path) @ [dquote] @ '']'' @ [nl, nl]
         @ ''[ext_resource type='' @ [dquote] @ ''Script'' @ [dquote]
           @ '' path='' @ [dquote] @ ''res://'' @ script_path @ [dquote]
           @ '' id='' @ [dquote] @ ''1_'' @ script_uid @ [dquote] @ '']'' @ [nl, nl]
         @ ''[node name='' @ [dquote] @ capitalize (Path_stem script_path) @ [dquote]
           @ '' type='' @ [dquote] @ node_type @ [dquote] @ '']'' @ [nl]
         @ ''script = ExtResource('' @ [dquote] @ ''1_'' @ script_uid @ [dquote] @ '')'' @ [nl])"

subsection \<open>\<^verbatim>\<open>_extract_node_type_from_purpose\<close>\<close>

text \<open>
  \<^verbatim>\<open>re.search(r'(?:Root node is|Extends)\s+([A-Za-z0-9_]+)', purpose, re.IGNORECASE)\<close>.
  \<open>node_type_at\<close> is the match that starts at the head of its argument: one of the two
  phrases in any letter case, then all the whitespace that follows (at least one
  character), then all the word characters that follow (at least one), which are the
  group. Whitespace and word characters are disjoint, so giving back part of a greedy
  run never turns a failure into a match. \<open>search_node_type\<close> takes the leftmost match.
\<close>

definition word_char :: "char \<Rightarrow> bool" where
  "word_char c = (is_lower c \<or> is_upper c \<or> is_digit c \<or> c = CHR ''_'')"

definition iprefix :: "string \<Rightarrow> string \<Rightarrow> bool" where
  "iprefix phrase s = prefix (lower phrase) (lower s)"

definition node_type_at :: "string \<Rightarrow> string option" where
  "node_type_at s =
     (case (if iprefix ''Root node is'' s then Some (drop (length ''Root node is'') s)
            else if iprefix ''Extends'' s then Some (drop (length ''Extends'') s)
            else None) of
        None \<Rightarrow> None
      | Some rest \<Rightarrow>
          (let spaces = takeWhile isspace rest;
               name = takeWhile word_char (dropWhile isspace rest)
           in if spaces \<noteq> [] \<and> name \<noteq> [] then Some name else None))"

fun search_node_type :: "string \<Rightarrow> string option" where
  "search_node_type [] = node_type_at []"
| "search_node_type (c # cs) =
     (case node_type_at (c # cs) of
        Some name \<Rightarrow> Some name
      | None \<Rightarrow> search_node_type cs)"

definition extract_node_type_from_purpose :: "string \<Rightarrow> string" where
  "extract_node_type_from_purpose p =
     (case search_node_type p of Some name \<Rightarrow> name | None \<Rightarrow> ''Node'')"

subsection \<open>\<^verbatim>\<open>robust_clean_llm_output\<close>\<close>

text \<open>
  \<^verbatim>\<open>re.compile(r'```(?:[a-zA-Z0-9_]*)?\n(.*?)\n```', re.DOTALL).search(content)\<close>.
  \<open>match_at\<close> is the match that starts at the head of its argument: three backticks,
  the longest run of tag characters, a line feed, and then the shortest text that is
  followed by a line feed and three backticks (\<open>lazy_body\<close>: the dot matches every
  character, line feeds too); that text is the group. A shorter tag is followed by a tag
  character, never by the line feed, so the longest run is the only one to try.
  \<open>search\<close> takes the leftmost match.
\<close>

definition fence :: string where
  "fence = [backtick, backtick, backtick]"

fun lazy_body :: "string \<Rightarrow> string option" where
  "lazy_body [] = None"
| "lazy_body (c # cs) =
     (if prefix (nl # fence) (c # cs) then Some []
      else map_option ((#) c) (lazy_body cs))"

definition match_at :: "string \<Rightarrow> string option" where
  "match_at s =
     (if prefix fence s
      then (case dropWhile word_char (drop (length fence) s) of
              [] \<Rightarrow> None
            | c # body \<Rightarrow> if c = nl then lazy_body body else None)
      else None)"

fun search :: "string \<Rightarrow> string option" where
  "search [] = match_at []"
| "search (c # cs) =
     (case match_at (c # cs) of
        Some g \<Rightarrow> Some g
      | None \<Rightarrow> search cs)"

definition robust_clean_llm_output :: "string \<Rightarrow> string" where
  "robust_clean_llm_output content =
     (let content' = strip content
      in case search content' of
           Some group1 \<Rightarrow> strip group1
         | None \<Rightarrow> content')"

subsection \<open>The prompts\<close>

text \<open>\<^verbatim>\<open>self.log(level, message)\<close>.\<close>

definition log_message :: "string \<Rightarrow> string \<Rightarrow> world \<Rightarrow> world" where
  "log_message level message w =
     emit ''log_message_received'' [''GenerationCoordinator'', level, message] w"

text \<open>
  The prompt builders. They read \<^verbatim>\<open>file_info["filename"]\<close> and
  \<^verbatim>\<open>file_info["purpose"]\<close> again, which \<^verbatim>\<open>_generate_single_file\<close> has read before
  it calls them; the model passes the two values.
\<close>

definition spaces :: "nat \<Rightarrow> string" where
  "spaces n = replicate n (CHR '' '')"

definition build_python_coder_prompt ::
  "env \<Rightarrow> string \<Rightarrow> string \<Rightarrow> GenerationContext \<Rightarrow> (string, string) dict \<Rightarrow> py_error + string" where
  "build_python_coder_prompt sv filename p context other_generated_files =
     (let is_modification = dict_contains (existing_files context) filename;
          original_code_section =
            (if is_modification then
               (let original_code = dict_get (existing_files context) filename []
                in dedent sv
                     ([nl] @ spaces 16 @ ''---'' @ [nl]
                      @ spaces 16 @ ''**ORIGINAL CODE OF '' @ [backtick] @ filename @ [backtick]
                      @ '' (You are modifying this file):**'' @ [nl]
                      @ spaces 16 @ fence @ ''python'' @ [nl]
                      @ spaces 16 @ original_code @ [nl]
                      @ spaces 16 @ fence @ [nl]
                      @ spaces 12))
             else []);
          python_files_this_session =
            filter (\<lambda>(fname, code). suffix ''.py'' fname) other_generated_files
      in format sv (CODER_PROMPT sv)
           [(''filename'', filename),
            (''purpose'', p),
            (''original_code_section'', original_code_section),
            (''file_plan_json'', json_dumps_plan sv (plan context)),
            (''symbol_index_json'', json_dumps sv (project_index context)),
            (''generated_files_code_json'', json_dumps sv python_files_this_session)])"

definition build_gdscript_coder_prompt ::
  "env \<Rightarrow> string \<Rightarrow> string \<Rightarrow> GenerationContext \<Rightarrow> py_error + string" where
  "build_gdscript_coder_prompt sv filename p context =
     format sv (GODOT_GDSCRIPT_CODER_PROMPT sv)
       [(''filename'', filename),
        (''purpose'', p),
        (''file_plan_json'', json_dumps_plan sv (plan context))]"

definition build_godot_generic_prompt ::
  "env \<Rightarrow> string \<Rightarrow> string \<Rightarrow> GenerationContext \<Rightarrow> py_error + string" where
  "build_godot_generic_prompt sv filename p context =
     format sv (GODOT_GENERIC_FILE_PROMPT sv)
       [(''filename'', filename),
        (''purpose'', p),
        (''file_plan_json'', json_dumps_plan sv (plan context))]"

definition build_simple_file_prompt ::
  "env \<Rightarrow> string \<Rightarrow> string \<Rightarrow> GenerationContext \<Rightarrow> (string, string) dict \<Rightarrow> py_error + string" where
  "build_simple_file_prompt sv filename p context other_generated_files =
     format sv (SIMPLE_FILE_PROMPT sv)
       [(''filename'', filename),
        (''purpose'', p),
        (''file_plan_json'', json_dumps_plan sv (plan context)),
        (''existing_files_json'', json_dumps sv other_generated_files)]"

text \<open>The dispatch on the extension, for every extension but \<^verbatim>\<open>.tscn\<close>.\<close>

definition build_prompt ::
  "env \<Rightarrow> string \<Rightarrow> string \<Rightarrow> GenerationContext \<Rightarrow> (string, string) dict
     \<Rightarrow> (string, string) dict \<Rightarrow> world \<Rightarrow> (py_error + string) \<times> world" where
  "build_prompt sv filename p context other_generated_files custom_prompts w =
     (let file_extension = Path_suffix filename
      in case map_of custom_prompts file_extension of
           Some prompt_template \<Rightarrow>
             (format sv prompt_template
                [(''filename'', filename),
                 (''filename_stem'', Path_stem filename),
                 (''purpose'', p),
                 (''file_plan_json'', json_dumps_plan sv (plan context))],
              log_message ''info'' (''Using custom prompt for extension '' @ [squote] @ file_extension
                            @ [squote]) w)
         | None \<Rightarrow>
             (if file_extension = ''.py'' then
                build_python_coder_prompt sv filename p context other_generated_files
              else if file_extension = ''.gd'' then
                build_gdscript_coder_prompt sv filename p context
              else if file_extension \<in> set [''.godot'', ''.import'', ''.svg''] then
                build_godot_generic_prompt sv filename p context
              else build_simple_file_prompt sv filename p context other_generated_files,
              w))"

subsection \<open>\<^verbatim>\<open>_generate_single_file\<close>\<close>

definition falsy :: "string option \<Rightarrow> bool" where
  "falsy v = (case v of None \<Rightarrow> True | Some s \<Rightarrow> s = [])"

text \<open>
  The streaming loop: every chunk is appended to the content and published; when the
  stream raises, the content is dropped and the failure logged.
\<close>

definition stream_file :: "env \<Rightarrow> string \<Rightarrow> string \<Rightarrow> string \<Rightarrow> string \<Rightarrow> world
     \<Rightarrow> string option \<times> world" where
  "stream_file sv filename provider model prompt w =
     (let (chunks, failure) = stream_chat sv (trace w) provider model prompt ''coder'';
          w1 = w\<lparr>trace := trace w @ [StreamChat provider model prompt ''coder'']\<rparr>;
          w2 = fold (\<lambda>chunk. emit ''stream_code_chunk'' [filename, chunk]) chunks w1
      in case failure of
           None \<Rightarrow> (Some (concat chunks), w2)
         | Some e \<Rightarrow>
             (None,
              log_message ''error'' (''LLM generation failed for '' @ filename @ '': '' @ str_of_error e)
                w2))"

text \<open>
  From the prompt on: an empty prompt and a missing provider or model are failures of
  this file (\<^verbatim>\<open>None\<close>); \<^verbatim>\<open>get_model_for_role\<close> is called outside the
  \<^verbatim>\<open>try\<close>, so what it raises leaves the method.
\<close>

definition call_model :: "env \<Rightarrow> string \<Rightarrow> string \<Rightarrow> world \<Rightarrow> (py_error + string option) \<times> world" where
  "call_model sv filename prompt w =
     (if prompt = [] then
        (Inr None,
         log_message ''error'' (''Could not determine a prompt for '' @ filename @ ''. Skipping.'') w)
      else
        (let w2 = w\<lparr>trace := trace w @ [GetModelForRole ''coder'']\<rparr>
         in case get_model_for_role sv (trace w) ''coder'' of
              Inl e \<Rightarrow> (Inl e, w2)
            | Inr (provider, model) \<Rightarrow>
                (if falsy provider \<or> falsy model then
                   (Inr None,
                    log_message ''error'' (''No model for '' @ [squote] @ ''coder'' @ [squote]
                                   @ '' role. Cannot generate '' @ filename @ ''.'') w2)
                 else
                   (case stream_file sv filename (the provider) (the model) prompt w2 of
                      (content, w3) \<Rightarrow> (Inr content, w3)))))"

definition generate_single_file ::
  "env \<Rightarrow> file_info \<Rightarrow> GenerationContext \<Rightarrow> (string, string) dict \<Rightarrow> (string, string) dict
     \<Rightarrow> world \<Rightarrow> (py_error + string option) \<times> world" where
  "generate_single_file sv file_info context other_generated_files custom_prompts w =
     (case subscript file_info ''filename'' of
        Inl e \<Rightarrow> (Inl e, w)
      | Inr filename \<Rightarrow>
          (case subscript file_info ''purpose'' of
             Inl e \<Rightarrow> (Inl e, w)
           | Inr p \<Rightarrow>
               (if Path_suffix filename = ''.tscn'' then
                  (let w1 = log_message ''info'' (''Programmatically generating placeholder scene for ''
                                          @ filename) w;
                       node_type = extract_node_type_from_purpose p;
                       script_path = replace ''.tscn'' ''.gd'' filename
                   in (Inr (Some (create_tscn_content sv node_type script_path)), w1))
                else
                  (case build_prompt sv filename p context other_generated_files
                          custom_prompts w of
                     (Inl e, w1) \<Rightarrow> (Inl e, w1)
                   | (Inr prompt, w1) \<Rightarrow> call_model sv filename prompt w1))))"

subsection \<open>\<^verbatim>\<open>coordinate_generation\<close>\<close>

text \<open>
  \<^verbatim>\<open>next((f for f in plan['files'] if f['filename'] == filename), None)\<close>: the first
  entry with that filename; an entry met before it that has no \<^verbatim>\<open>filename\<close> raises.
\<close>

fun find_file_info :: "file_info list \<Rightarrow> string \<Rightarrow> py_error + file_info option" where
  "find_file_info [] filename = Inr None"
| "find_file_info (f # fs) filename =
     (case subscript f ''filename'' of
        Inl e \<Rightarrow> Inl e
      | Inr name \<Rightarrow> if name = filename then Inr (Some f) else find_file_info fs filename)"

text \<open>
  The view of the files generated so far that a strategy receives: a copy of this run's
  output without the entry of the current file.
\<close>

definition other_generated_files_view ::
  "(string, string) dict \<Rightarrow> string \<Rightarrow> (string, string) dict" where
  "other_generated_files_view generated_files_this_session filename =
     (let other_generated_files = generated_files_this_session
      in if dict_contains other_generated_files filename
         then AList.delete filename other_generated_files
         else other_generated_files)"

definition failure_placeholder :: "string \<Rightarrow> string" where
  "failure_placeholder filename = ''# ERROR: Failed to generate content for '' @ filename"

definition progress :: "string \<Rightarrow> nat \<Rightarrow> nat \<Rightarrow> world \<Rightarrow> world" where
  "progress filename i total_files w =
     emit ''coordinated_generation_progress''
       [filename, str_of_nat (i + 1), str_of_nat total_files] w"

text \<open>
  One iteration of the \<^verbatim>\<open>for\<close> loop, on the state (this run's output, the rolling
  context): \<open>loop_body\<close> up to the lookup in the plan (\<open>announce\<close> is the status
  event and the log line that open the iteration; \<^verbatim>\<open>if not file_info\<close> skips a
  missing entry and an empty one), \<open>process_file\<close> from the view on.
\<close>

definition process_file ::
  "env \<Rightarrow> (string, string) dict \<Rightarrow> nat \<Rightarrow> nat \<Rightarrow> string \<Rightarrow> file_info
     \<Rightarrow> (string, string) dict \<times> GenerationContext \<Rightarrow> world
     \<Rightarrow> (py_error + (string, string) dict \<times> GenerationContext) \<times> world" where
  "process_file sv custom_prompts total_files i filename file_info st w =
     (case st of (generated_files_this_session, context) \<Rightarrow>
        (let other_generated_files =
               other_generated_files_view generated_files_this_session filename
         in case generate_single_file sv file_info context other_generated_files
                   custom_prompts w of
              (Inl e, w3) \<Rightarrow> (Inl e, w3)
            | (Inr (Some generated_content), w3) \<Rightarrow>
                (let cleaned_content = robust_clean_llm_output generated_content
                 in case update_session_context sv context [(filename, cleaned_content)] w3 of
                      (Inl e, w4) \<Rightarrow> (Inl e, w4)
                    | (Inr context', w4) \<Rightarrow>
                        (Inr (AList.update filename cleaned_content
                                generated_files_this_session,
                              context'),
                         progress filename i total_files w4))
            | (Inr None, w3) \<Rightarrow>
                (Inr (AList.update filename (failure_placeholder filename)
                        generated_files_this_session,
                      context),
                 progress filename i total_files
                   (log_message ''error'' (''Failed to generate content for '' @ filename @ ''.'') w3))))"

definition announce :: "nat \<Rightarrow> nat \<Rightarrow> string \<Rightarrow> world \<Rightarrow> world" where
  "announce i total_files filename w =
     log_message ''info'' (''Generating file '' @ str_of_nat (i + 1) @ ''/''
                           @ str_of_nat total_files @ '': '' @ filename)
       (emit ''agent_status_changed''
          [''Coder'', ''Writing '' @ filename @ ''...'', ''fa5s.keyboard''] w)"

definition skip_missing :: "string \<Rightarrow> world \<Rightarrow> world" where
  "skip_missing filename w =
     log_message ''error'' (''Could not find file info for '' @ filename
                            @ '' in plan. Skipping.'') w"

definition loop_body ::
  "env \<Rightarrow> Plan \<Rightarrow> (string, string) dict \<Rightarrow> nat \<Rightarrow> nat \<Rightarrow> string
     \<Rightarrow> (string, string) dict \<times> GenerationContext \<Rightarrow> world
     \<Rightarrow> (py_error + (string, string) dict \<times> GenerationContext) \<times> world" where
  "loop_body sv pl custom_prompts total_files i filename st w =
     (let w2 = announce i total_files filename w
      in case files pl of
           None \<Rightarrow> (Inl (KeyError ''files''), w2)
         | Some fs \<Rightarrow>
             (case find_file_info fs filename of
                Inl e \<Rightarrow> (Inl e, w2)
              | Inr None \<Rightarrow> (Inr st, skip_missing filename w2)
              | Inr (Some file_info) \<Rightarrow>
                  (if file_info = [] then (Inr st, skip_missing filename w2)
                   else process_file sv custom_prompts total_files i filename file_info st w2)))"

fun generation_loop ::
  "env \<Rightarrow> Plan \<Rightarrow> (string, string) dict \<Rightarrow> nat \<Rightarrow> nat \<Rightarrow> string list
     \<Rightarrow> (string, string) dict \<times> GenerationContext \<Rightarrow> world
     \<Rightarrow> (py_error + (string, string) dict \<times> GenerationContext) \<times> world" where
  "generation_loop sv pl custom_prompts total_files i [] st w = (Inr st, w)"
| "generation_loop sv pl custom_prompts total_files i (filename # rest) st w =
     (case loop_body sv pl custom_prompts total_files i filename st w of
        (Inl e, w') \<Rightarrow> (Inl e, w')
      | (Inr st', w') \<Rightarrow> generation_loop sv pl custom_prompts total_files (Suc i) rest st' w')"

definition rocket :: string where
  "rocket = [CHR 0xF0, CHR 0x9F, CHR 0x9A, CHR 0x80]"

definition check_mark :: string where
  "check_mark = [CHR 0xE2, CHR 0x9C, CHR 0x85]"

definition start_run :: "world \<Rightarrow> world" where
  "start_run w =
     log_message ''info'' (rocket @ '' Starting unified generation with rolling context...'') w"

definition finish_run :: "nat \<Rightarrow> nat \<Rightarrow> world \<Rightarrow> world" where
  "finish_run generated total_files w =
     log_message ''success'' (check_mark @ '' Unified generation complete: ''
                              @ str_of_nat generated @ ''/''
                              @ str_of_nat total_files @ '' files generated.'') w"

text \<open>
  The body of the \<^verbatim>\<open>try\<close> of \<^verbatim>\<open>coordinate_generation\<close>; \<open>start_run\<close> and
  \<open>finish_run\<close> are its first and its last log line.
\<close>

definition coordinate_generation_try ::
  "env \<Rightarrow> Plan \<Rightarrow> string \<Rightarrow> (string, string) dict option \<Rightarrow> (string, string) dict option
     \<Rightarrow> world \<Rightarrow> (py_error + (string, string) dict) \<times> world" where
  "coordinate_generation_try sv pl rag existing custom_prompts w =
     (let w1 = start_run w
      in case build_generation_context sv pl rag existing w1 of
           (Inl e, w2) \<Rightarrow> (Inl e, w2)
         | (Inr context, w2) \<Rightarrow>
     (case plan_generation_order sv context (sessions w2 ! generation_session context) of
        Inl e \<Rightarrow> (Inl e, w2)
      | Inr generation_order \<Rightarrow>
     (let total_files = length generation_order
      in case generation_loop sv pl (case custom_prompts of None \<Rightarrow> [] | Some cp \<Rightarrow> cp)
                total_files 0 generation_order ([], context) w2 of
           (Inl e, w3) \<Rightarrow> (Inl e, w3)
         | (Inr (generated_files_this_session, context'), w3) \<Rightarrow>
             (Inr generated_files_this_session,
              finish_run (length generated_files_this_session) total_files w3))))"

text \<open>
  The handler of \<^verbatim>\<open>except Exception\<close>: the failure is logged, the traceback printed,
  and the empty dictionary returned.
\<close>

definition abort_run :: "py_error \<Rightarrow> world \<Rightarrow> world" where
  "abort_run e w =
     print_exc e (log_message ''error'' (''Coordinated generation failed: '' @ str_of_error e) w)"

definition coordinate_generation ::
  "env \<Rightarrow> Plan \<Rightarrow> string \<Rightarrow> (string, string) dict option \<Rightarrow> (string, string) dict option
     \<Rightarrow> world \<Rightarrow> (string, string) dict \<times> world" where
  "coordinate_generation sv pl rag existing custom_prompts w =
     (case coordinate_generation_try sv pl rag existing custom_prompts w of
        (Inr generated_files_this_session, w') \<Rightarrow> (generated_files_this_session, w')
      | (Inl e, w') \<Rightarrow> ([], abort_run e w'))"

section \<open>Notions of the properties\<close>

text \<open>
  A text wrapped in a fenced block: the delimiter line with its language tag (possibly
  empty), the text, and the closing delimiter line.
\<close>

definition fenced :: "string \<Rightarrow> string \<Rightarrow> string" where
  "fenced tag T = fence @ tag @ [nl] @ T @ [nl] @ fence"

text \<open>
  The filenames of a plan: the \<^verbatim>\<open>filename\<close> of every entry of \<^verbatim>\<open>plan["files"]\<close>
  that has one, in the order of the plan.
\<close>

definition planned_filenames :: "Plan \<Rightarrow> string list" where
  "planned_filenames pl =
     (case files pl of
        None \<Rightarrow> []
      | Some fs \<Rightarrow> List.map_filter (\<lambda>f. map_of f ''filename'') fs)"

section \<open>A sample run\<close>

text \<open>
  Concrete collaborators, plans and states on which the properties below are
  instantiated. The indexer knows one symbol (\<^verbatim>\<open>User\<close>, when the code declares the
  class) and rejects code that contains \<^verbatim>\<open>raise\<close>; the model client answers with a
  fenced class for \<^verbatim>\<open>models.py\<close> and with one line for every other file;
  \<^verbatim>\<open>format\<close> knows no placeholder \<^verbatim>\<open>{unknown}\<close>; \<^verbatim>\<open>hash\<close> is the length, and
  in \<open>salted_env\<close>, the same interpreter started with another salt, the length plus one.
\<close>

definition test_env :: env where
  "test_env =
     \<lparr>get_symbols_from_content =
        (\<lambda>code module_path.
           if contains code ''raise'' then Inl (Raised ''invalid syntax'')
           else if contains code ''class User'' then Inr [(''User'', module_path)]
           else Inr []),
      build_index = (\<lambda>path. Inr []),
      active_project_path = None,
      plan_generation_order = (\<lambda>context session. Inr (map fst session)),
      get_model_for_role = (\<lambda>tr role. Inr (Some ''provider'', Some ''model'')),
      stream_chat =
        (\<lambda>tr provider model prompt role.
           if contains prompt ''models.py''
           then ([fence @ ''python'' @ [nl], ''class User: pass'', [nl] @ fence], None)
           else ([''x = 1''], None)),
      hash = (\<lambda>s. int (length s)),
      set_order = (\<lambda>xs. xs),
      format =
        (\<lambda>template args.
           if contains template ''{unknown}'' then Inl (KeyError ''unknown'')
           else Inr (template @ '' '' @ dict_get args ''filename'' [])),
      json_dumps_plan = (\<lambda>pl. ''{}''),
      json_dumps = (\<lambda>d. ''{}''),
      dedent = (\<lambda>s. s),
      rnd = (\<lambda>x. x),
      CODER_PROMPT = ''coder'',
      SIMPLE_FILE_PROMPT = ''simple'',
      GODOT_GDSCRIPT_CODER_PROMPT = ''gdscript'',
      GODOT_GENERIC_FILE_PROMPT = ''generic''\<rparr>"

definition salted_env :: env where
  "salted_env = test_env\<lparr>hash := (\<lambda>s. int (length s) + 1)\<rparr>"


definition test_plan :: Plan where
  "test_plan =
     \<lparr>files = Some [[(''filename'', ''models.py''), (''purpose'', ''data models'')],
                    [(''filename'', ''service.py''), (''purpose'', ''service using models'')]],
      plan_dependencies = []\<rparr>"

definition test_plan_md :: Plan where
  "test_plan_md =
     \<lparr>files = Some [[(''filename'', ''models.py''), (''purpose'', ''data models'')],
                    [(''filename'', ''README.md''), (''purpose'', ''project readme'')]],
      plan_dependencies = []\<rparr>"

definition test_session :: session where
  "test_session =
     [(''models.py'',
       \<lparr>purpose = ''data models'', status = ''planned'', dependencies = [],
        generated_code = None\<rparr>),
      (''service.py'',
       \<lparr>purpose = ''service using models'', status = ''planned'',
        dependencies = [''ava.core.event_bus''], generated_code = None\<rparr>)]"

definition test_context :: GenerationContext where
  "test_context =
     \<lparr>plan = test_plan, project_index = [(''Helper'', ''utils'')], living_design_context = [],
      dependency_order = [], generation_session = 0, rag_context = [],
      relevance_scores = [], existing_files = []\<rparr>"

definition test_context0 :: GenerationContext where
  "test_context0 =
     \<lparr>plan = test_plan, project_index = [], living_design_context = [],
      dependency_order = [], generation_session = 0, rag_context = [],
      relevance_scores = [], existing_files = []\<rparr>"

definition test_world :: world where
  "test_world = \<lparr>sessions = [test_session], trace = []\<rparr>"

definition empty_world :: world where "empty_world = \<lparr>sessions = [], trace = []\<rparr>"

section \<open>Auxiliary facts\<close>

subsection \<open>Evaluation\<close>

lemmas string_defs = isspace_def strip_def is_upper_def is_lower_def is_digit_def lower_char_def
  upper_char_def lower_def capitalize_def isalpha_def split_on_def split_whitespace_def
  Path_name_def rfind_def Path_suffix_def Path_stem_def word_char_def iprefix_def
  squote_def dquote_def backtick_def nl_def fence_def suffix_to_prefix

lemmas dict_defs = dict_contains_def subscript_def dict_update_def dict_get_def

lemmas world_defs = emit_def print_def print_exc_def log_message_def announce_def skip_missing_def
  progress_def start_run_def finish_run_def abort_run_def

lemmas context_defs = dependency_patterns_def extract_file_dependencies_def keyword_words_def
  extract_keywords_from_plan_def calculate_text_relevance_def calculate_relevance_scores_def
  module_path_of_def initial_index_def build_generation_context_def mark_completed_def
  record_completed_def update_session_context_try_def update_session_context_def

lemmas coordinator_defs = uid_number_def create_tscn_content_def node_type_at_def
  extract_node_type_from_purpose_def match_at_def robust_clean_llm_output_def spaces_def
  build_python_coder_prompt_def build_gdscript_coder_prompt_def build_godot_generic_prompt_def
  build_simple_file_prompt_def build_prompt_def falsy_def stream_file_def call_model_def
  generate_single_file_def other_generated_files_view_def failure_placeholder_def
  process_file_def loop_body_def rocket_def check_mark_def coordinate_generation_try_def
  coordinate_generation_def

lemmas eval_defs = string_defs dict_defs world_defs context_defs coordinator_defs
  test_env_def test_plan_def empty_world_def test_context_def test_world_def test_session_def
  str_of_nat.simps Let_def

lemmas eval2_defs = eval_defs test_context0_def

lemma pair_fstI: "fst p = a \<Longrightarrow> p = (a, snd p)"
  by (cases p) simp

subsection \<open>Fenced blocks\<close>

lemma not_isspace_backtick: "\<not> isspace backtick"
  by (simp add: isspace_def backtick_def)

lemma not_word_char_nl: "\<not> word_char nl"
  by (simp add: word_char_def nl_def is_lower_def is_upper_def is_digit_def)

lemma nl_neq_backtick: "nl \<noteq> backtick"
  by (simp add: nl_def backtick_def)

lemma strip_fenced: "strip (fenced tag T) = fenced tag T"
  by (simp add: strip_def fenced_def fence_def not_isspace_backtick)

lemma lazy_body_closing:
  "\<not> contains T (nl # fence) \<Longrightarrow> lazy_body (T @ nl # fence) = Some T"
proof (induction T)
  case Nil
  then show ?case by simp
next
  case (Cons c cs)
  then have np: "\<not> prefix (nl # fence) (c # cs)" and nc: "\<not> contains cs (nl # fence)"
    by simp_all
  have "\<not> prefix (nl # fence) (c # cs @ nl # fence)"
  proof
    assume p: "prefix (nl # fence) (c # cs @ nl # fence)"
    show False
    proof (cases cs)
      case Nil
      with p show False by (simp add: fence_def nl_neq_backtick[symmetric])
    next
      case (Cons x xs)
      note c1 = this
      show False
      proof (cases xs)
        case Nil
        with p c1 show False by (simp add: fence_def nl_neq_backtick[symmetric])
      next
        case (Cons y ys)
        note c2 = this
        show False
        proof (cases ys)
          case Nil
          with p c1 c2 show False by (simp add: fence_def nl_neq_backtick[symmetric])
        next
          case (Cons z zs)
          with p c1 c2 np show False by (simp add: fence_def)
        qed
      qed
    qed
  qed
  with Cons.IH[OF nc] show ?case by simp
qed

lemma match_at_fenced:
  assumes "list_all word_char tag"
  shows "match_at (fenced tag T) = lazy_body (T @ nl # fence)"
proof -
  have "dropWhile word_char (tag @ nl # T @ nl # fence) = nl # T @ nl # fence"
    using assms by (simp add: dropWhile_append3 list_all_iff not_word_char_nl)
  then show ?thesis
    by (simp add: match_at_def fenced_def)
qed

lemma search_head: "match_at s = Some g \<Longrightarrow> search s = Some g"
  by (cases s) simp_all

subsection \<open>Keyword sets and substrings\<close>

lemma matches_le: "fcard (ffilter P K) \<le> fcard K"
  by (rule fcard_mono) auto

lemma ffilter_fempty: "ffilter P {||} = {||}"
  by auto

lemma ffilter_finsert: "ffilter P (finsert x A) = (if P x then finsert x (ffilter P A) else ffilter P A)"
  by auto

lemma contains_prefix: "prefix sub s \<Longrightarrow> contains s sub"
  by (cases s) auto

lemma contains_append: "contains (xs @ sub @ ys) sub"
proof (induction xs)
  case Nil
  show ?case by (simp add: contains_prefix)
next
  case (Cons x xs)
  then show ?case by simp
qed

lemma subscript_Some: "map_of d k = Some v \<Longrightarrow> subscript d k = Inr v"
  by (simp add: subscript_def)

subsection \<open>Dictionaries\<close>

lemma map_of_dict_update: "map_of (dict_update d e) = map_of d ++ map_of (rev e)"
proof (induction e arbitrary: d)
  case Nil
  show ?case by (simp add: dict_update_def)
next
  case (Cons p e)
  obtain k v where p: "p = (k, v)" by (cases p)
  have "dict_update d (p # e) = dict_update (AList.update k v d) e"
    by (simp add: dict_update_def p)
  then show ?case
    by (simp add: Cons.IH p update_conv' map_add_def fun_eq_iff split: option.splits)
qed

lemma dict_update_keep:
  "map_of e s = None \<Longrightarrow> map_of (dict_update d e) s = map_of d s"
proof -
  assume "map_of e s = None"
  then have "s \<notin> fst ` set e" by (simp add: map_of_eq_None_iff)
  then have "map_of (rev e) s = None" by (simp add: map_of_eq_None_iff)
  then show ?thesis by (simp add: map_of_dict_update map_add_def)
qed


lemma dict_update_new:
  "map_of e s \<noteq> None \<Longrightarrow> map_of (dict_update d e) s = map_of (rev e) s"
proof -
  assume "map_of e s \<noteq> None"
  then have "s \<in> fst ` set e" by (simp add: map_of_eq_None_iff)
  then have "map_of (rev e) s \<noteq> None" by (simp add: map_of_eq_None_iff)
  then show ?thesis by (auto simp add: map_of_dict_update map_add_def split: option.splits)
qed

subsection \<open>The session store is only touched by the context manager\<close>

lemma sessions_print [simp]: "sessions (print l w) = sessions w"
  by (simp add: print_def)

lemma sessions_print_exc [simp]: "sessions (print_exc e w) = sessions w"
  by (simp add: print_exc_def)

lemma sessions_emit [simp]: "sessions (emit n a w) = sessions w"
  by (simp add: emit_def)

lemma sessions_log [simp]: "sessions (log_message l m w) = sessions w"
  by (simp add: log_message_def)

lemma sessions_fold_emit [simp]:
  "sessions (fold (\<lambda>chunk. emit name (args chunk)) chunks w) = sessions w"
  by (induction chunks arbitrary: w) simp_all

lemma sessions_stream_file [simp]:
  "sessions (snd (stream_file sv filename provider model prompt w)) = sessions w"
  by (simp add: stream_file_def Let_def split: prod.splits option.splits)

lemma sessions_call_model [simp]:
  "sessions (snd (call_model sv filename prompt w)) = sessions w"
proof -
  have "sessions (snd (case stream_file sv filename provider model prompt w2 of
                         (content, w3) \<Rightarrow> (Inr content :: py_error + string option, w3))) = sessions w2"
    for provider model w2
    using sessions_stream_file[of sv filename provider model prompt w2]
    by (cases "stream_file sv filename provider model prompt w2") simp
  then show ?thesis
    by (simp add: call_model_def Let_def split: sum.splits prod.splits)
qed

lemma sessions_build_prompt [simp]:
  "sessions (snd (build_prompt sv filename p ctx other custom_prompts w)) = sessions w"
  by (simp add: build_prompt_def Let_def split: option.splits)

lemma sessions_generate_single_file [simp]:
  "sessions (snd (generate_single_file sv file_info ctx other custom_prompts w)) = sessions w"
proof -
  have "sessions (snd (case build_prompt sv filename p ctx other custom_prompts w of
                         (Inl e, w1) \<Rightarrow> (Inl e, w1)
                       | (Inr prompt, w1) \<Rightarrow> call_model sv filename prompt w1)) = sessions w"
    for filename p
    using sessions_build_prompt[of sv filename p ctx other custom_prompts w]
    by (cases "build_prompt sv filename p ctx other custom_prompts w") (auto split: sum.splits)
  then show ?thesis
    by (simp add: generate_single_file_def Let_def split: sum.splits)
qed

lemma sessions_announce [simp]: "sessions (announce i tot filename w) = sessions w"
  by (simp add: announce_def)

lemma sessions_skip_missing [simp]: "sessions (skip_missing filename w) = sessions w"
  by (simp add: skip_missing_def)

subsection \<open>The context updater, case by case\<close>

lemma try_cases:
  "update_session_context_try sv context ((filename, code) # others) w =
     (if suffix ''.py'' filename then
        (case get_symbols_from_content sv code (module_path_of filename) of
           Inl e \<Rightarrow> (Inl e, record_completed context filename code w)
         | Inr new_symbols \<Rightarrow>
             (Inr (context\<lparr>project_index := dict_update (project_index context) new_symbols\<rparr>),
              print (''[ContextManager] Updated symbol index with ''
                     @ str_of_nat (length new_symbols)
                     @ '' symbols from new file: '' @ filename)
                (record_completed context filename code w)))
      else (Inr context, record_completed context filename code w))"
  by (simp add: update_session_context_try_def Let_def split: sum.splits)

lemma update_cases:
  "update_session_context sv context ((filename, code) # others) w =
     (if suffix ''.py'' filename then
        (case get_symbols_from_content sv code (module_path_of filename) of
           Inl e \<Rightarrow>
             (Inr context,
              print_exc e
                (print (''Error updating session context for '' @ filename @ '': ''
                        @ str_of_error e) (record_completed context filename code w)))
         | Inr new_symbols \<Rightarrow>
             (Inr (context\<lparr>project_index := dict_update (project_index context) new_symbols\<rparr>),
              print (''[ContextManager] Updated symbol index with ''
                     @ str_of_nat (length new_symbols)
                     @ '' symbols from new file: '' @ filename)
                (record_completed context filename code w)))
      else (Inr context, record_completed context filename code w))"
  by (simp add: update_session_context_def try_cases split: sum.splits)

lemma update_empty: "update_session_context sv context [] w = (Inl IndexError, w)"
  by (simp add: update_session_context_def update_session_context_try_def)

lemma length_sessions_record_completed [simp]:
  "length (sessions (record_completed context filename code w)) = length (sessions w)"
  by (simp add: record_completed_def Let_def)

lemma update_session_context_ref:
  assumes "update_session_context sv context newly w = (res, w')"
  shows "length (sessions w') = length (sessions w)"
    and "res = Inr context' \<Longrightarrow> generation_session context' = generation_session context"
proof -
  show "length (sessions w') = length (sessions w)"
  proof (cases newly)
    case Nil
    with assms show ?thesis by (simp add: update_empty)
  next
    case (Cons p others)
    obtain filename code where "p = (filename, code)" by (cases p)
    with Cons assms show ?thesis
      by (auto simp: update_cases split: if_splits sum.splits)
  qed
  show "generation_session context' = generation_session context" if "res = Inr context'"
  proof (cases newly)
    case Nil
    with assms that show ?thesis by (simp add: update_empty)
  next
    case (Cons p others)
    obtain filename code where "p = (filename, code)" by (cases p)
    with Cons assms that show ?thesis
      by (auto simp: update_cases split: if_splits sum.splits)
  qed
qed

subsection \<open>The orchestration loop\<close>

lemma find_file_info_None:
  "find_file_info fs filename = Inr None
   \<Longrightarrow> filename \<notin> set (List.map_filter (\<lambda>f. map_of f ''filename'') fs)"
  by (induction fs) (auto simp: List.map_filter_simps subscript_def split: option.splits if_splits)

lemma find_file_info_Some:
  "find_file_info fs filename = Inr (Some file_info)
   \<Longrightarrow> filename \<in> set (List.map_filter (\<lambda>f. map_of f ''filename'') fs)
       \<and> map_of file_info ''filename'' = Some filename \<and> file_info \<in> set fs"
  by (induction fs) (auto simp: List.map_filter_simps subscript_def split: option.splits if_splits)

lemma process_file_result:
  assumes "process_file sv cp tot i filename file_info (gen, ctx) w = (res, w')"
  shows "length (sessions w') = length (sessions w)"
    and "res = Inr (gen', ctx')
         \<Longrightarrow> (\<exists>content. gen' = AList.update filename content gen)
             \<and> generation_session ctx' = generation_session ctx"
proof -
  let ?view = "other_generated_files_view gen filename"
  obtain r1 w1 where g: "generate_single_file sv file_info ctx ?view cp w = (r1, w1)"
    by (cases "generate_single_file sv file_info ctx ?view cp w")
  then have s1: "sessions w1 = sessions w"
    using sessions_generate_single_file[of sv file_info ctx ?view cp w] by simp
  show "length (sessions w') = length (sessions w)"
  proof (cases r1)
    case (Inl e)
    with assms g s1 show ?thesis by (simp add: process_file_def)
  next
    case (Inr content)
    show ?thesis
    proof (cases content)
      case None
      with assms g s1 Inr show ?thesis by (auto simp: process_file_def progress_def)
    next
      case (Some c)
      obtain r2 w2 where u: "update_session_context sv ctx [(filename, robust_clean_llm_output c)] w1 = (r2, w2)"
        by (cases "update_session_context sv ctx [(filename, robust_clean_llm_output c)] w1")
      from update_session_context_ref(1)[OF u] s1 have "length (sessions w2) = length (sessions w)"
        by simp
      with assms g Inr Some u show ?thesis
        by (auto simp: process_file_def progress_def split: sum.splits)
    qed
  qed
  show "(\<exists>content. gen' = AList.update filename content gen)
             \<and> generation_session ctx' = generation_session ctx"
    if res: "res = Inr (gen', ctx')"
  proof (cases r1)
    case (Inl e)
    with assms g res show ?thesis by (simp add: process_file_def)
  next
    case (Inr content)
    show ?thesis
    proof (cases content)
      case None
      with assms g Inr res show ?thesis by (auto simp: process_file_def)
    next
      case (Some c)
      obtain r2 w2 where u: "update_session_context sv ctx [(filename, robust_clean_llm_output c)] w1 = (r2, w2)"
        by (cases "update_session_context sv ctx [(filename, robust_clean_llm_output c)] w1")
      show ?thesis
      proof (cases r2)
        case (Inl e)
        with assms g Inr Some u res show ?thesis by (simp add: process_file_def)
      next
        case (Inr c2)
        note r2 = this
        from update_session_context_ref(2)[OF u r2]
        have "generation_session c2 = generation_session ctx" .
        with assms g \<open>r1 = Inr content\<close> Some u res r2 show ?thesis
          by (auto simp: process_file_def)
      qed
    qed
  qed
qed

lemma loop_body_sessions:
  assumes "loop_body sv pl cp tot i filename (gen, ctx) w = (res, w')"
  shows "length (sessions w') = length (sessions w)"
proof (cases "files pl")
  case None
  with assms show ?thesis by (auto simp: loop_body_def Let_def)
next
  case (Some fs)
  note fs = this
  show ?thesis
  proof (cases "find_file_info fs filename")
    case (Inl e)
    with assms fs show ?thesis by (auto simp: loop_body_def Let_def)
  next
    case (Inr found)
    show ?thesis
    proof (cases "found = None \<or> found = Some []")
      case True
      with assms fs Inr show ?thesis by (auto simp: loop_body_def Let_def)
    next
      case False
      then obtain fi where fi: "found = Some fi" "fi \<noteq> []" by auto
      with assms fs Inr
      have "process_file sv cp tot i filename fi (gen, ctx) (announce i tot filename w) = (res, w')"
        by (simp add: loop_body_def Let_def)
      from process_file_result(1)[OF this] show ?thesis by simp
    qed
  qed
qed

lemma loop_body_result:
  assumes "loop_body sv pl cp tot i filename (gen, ctx) w = (Inr (gen', ctx'), w')"
  shows "generation_session ctx' = generation_session ctx"
    and "filename \<in> set (planned_filenames pl) \<Longrightarrow> \<exists>content. gen' = AList.update filename content gen"
    and "filename \<notin> set (planned_filenames pl) \<Longrightarrow> gen' = gen"
proof -
  let ?w2 = "announce i tot filename w"
  from assms obtain fs where fs: "files pl = Some fs"
    by (auto simp: loop_body_def Let_def split: option.splits)
  from assms fs obtain found where found: "find_file_info fs filename = Inr found"
    by (auto simp: loop_body_def Let_def split: sum.splits)
  have pl: "planned_filenames pl = List.map_filter (\<lambda>f. map_of f ''filename'') fs"
    by (simp add: planned_filenames_def fs)
  show "generation_session ctx' = generation_session ctx"
    and "filename \<in> set (planned_filenames pl) \<Longrightarrow> \<exists>content. gen' = AList.update filename content gen"
    and "filename \<notin> set (planned_filenames pl) \<Longrightarrow> gen' = gen"
  proof (atomize (full), cases found)
    case None
    with found have "filename \<notin> set (planned_filenames pl)"
      by (simp add: pl find_file_info_None)
    moreover from assms fs found None have "gen' = gen" "ctx' = ctx"
      by (simp_all add: loop_body_def Let_def)
    ultimately show "generation_session ctx' = generation_session ctx \<and>
      (filename \<in> set (planned_filenames pl) \<longrightarrow> (\<exists>content. gen' = AList.update filename content gen)) \<and>
      (filename \<notin> set (planned_filenames pl) \<longrightarrow> gen' = gen)"
      by simp
  next
    case (Some fi)
    with found have in_plan: "filename \<in> set (planned_filenames pl)" and "map_of fi ''filename'' = Some filename"
      by (simp_all add: pl find_file_info_Some)
    then have "fi \<noteq> []" by auto
    with assms fs found Some
    have "process_file sv cp tot i filename fi (gen, ctx) ?w2 = (Inr (gen', ctx'), w')"
      by (simp add: loop_body_def Let_def)
    from process_file_result(2)[OF this refl] in_plan
    show "generation_session ctx' = generation_session ctx \<and>
      (filename \<in> set (planned_filenames pl) \<longrightarrow> (\<exists>content. gen' = AList.update filename content gen)) \<and>
      (filename \<notin> set (planned_filenames pl) \<longrightarrow> gen' = gen)"
      by simp
  qed
qed

lemma loop_body_keys:
  assumes "loop_body sv pl cp tot i filename (gen, ctx) w = (Inr (gen', ctx'), w')"
  shows "fst ` set gen' = fst ` set gen \<union> ({filename} \<inter> set (planned_filenames pl))"
    and "distinct (map fst gen) \<Longrightarrow> distinct (map fst gen')"
proof -
  show "fst ` set gen' = fst ` set gen \<union> ({filename} \<inter> set (planned_filenames pl))"
  proof (cases "filename \<in> set (planned_filenames pl)")
    case True
    from loop_body_result(2)[OF assms True] obtain content
      where "gen' = AList.update filename content gen" ..
    with True show ?thesis by (simp add: dom_update)
  next
    case False
    from loop_body_result(3)[OF assms False] False show ?thesis by simp
  qed
  show "distinct (map fst gen')" if d: "distinct (map fst gen)"
  proof (cases "filename \<in> set (planned_filenames pl)")
    case True
    from loop_body_result(2)[OF assms True] obtain content
      where "gen' = AList.update filename content gen" ..
    with d show ?thesis by (simp add: distinct_update)
  next
    case False
    from loop_body_result(3)[OF assms False] d show ?thesis by simp
  qed
qed


lemma generation_loop_sessions:
  "generation_loop sv pl cp tot i order st w = (res, w')
   \<Longrightarrow> length (sessions w') = length (sessions w)"
proof (induction order arbitrary: i st w)
  case Nil
  then show ?case by simp
next
  case (Cons x xs)
  obtain r1 w1 where b: "loop_body sv pl cp tot i x st w = (r1, w1)"
    by (cases "loop_body sv pl cp tot i x st w")
  obtain gen ctx where st: "st = (gen, ctx)" by (cases st)
  from loop_body_sessions[OF b[unfolded st]] have l: "length (sessions w1) = length (sessions w)" .
  show ?case
  proof (cases r1)
    case (Inl e)
    with Cons.prems b l show ?thesis by simp
  next
    case (Inr st')
    with Cons.prems b have "generation_loop sv pl cp tot (Suc i) xs st' w1 = (res, w')" by simp
    from Cons.IH[OF this] l show ?thesis by simp
  qed
qed

lemma generation_loop_result:
  "generation_loop sv pl cp tot i order (gen, ctx) w = (Inr (gen', ctx'), w')
   \<Longrightarrow> generation_session ctx' = generation_session ctx
       \<and> fst ` set gen' = fst ` set gen \<union> (set order \<inter> set (planned_filenames pl))
       \<and> (distinct (map fst gen) \<longrightarrow> distinct (map fst gen'))"
proof (induction order arbitrary: i gen ctx w)
  case Nil
  then show ?case by simp
next
  case (Cons x xs)
  obtain r1 w1 where b: "loop_body sv pl cp tot i x (gen, ctx) w = (r1, w1)"
    by (cases "loop_body sv pl cp tot i x (gen, ctx) w")
  with Cons.prems obtain gen1 ctx1 where r1: "r1 = Inr (gen1, ctx1)"
    by (cases r1) auto
  with Cons.prems b have rest: "generation_loop sv pl cp tot (Suc i) xs (gen1, ctx1) w1 = (Inr (gen', ctx'), w')"
    by simp
  note step = loop_body_result(1)[OF b[unfolded r1]] loop_body_keys[OF b[unfolded r1]]
  from Cons.IH[OF rest] step show ?case by auto
qed

subsection \<open>The context builder\<close>

lemma plan_session_result:
  "plan_session sv fs r w = (res, w')
   \<Longrightarrow> length (sessions w') = length (sessions w)
       \<and> (\<forall>r'. r' \<noteq> r \<longrightarrow> sessions w' ! r' = sessions w ! r')
       \<and> trace w' = trace w
       \<and> (res = Inr () \<longrightarrow> (\<forall>f \<in> set fs. map_of f ''filename'' \<noteq> None))"
proof (induction fs arbitrary: w)
  case Nil
  then show ?case by simp
next
  case (Cons f fs)
  show ?case
  proof (cases "subscript f ''purpose''")
    case (Inl e)
    with Cons.prems show ?thesis by auto
  next
    case (Inr p)
    note p = this
    show ?thesis
    proof (cases "subscript f ''filename''")
      case (Inl e)
      with Cons.prems p show ?thesis by auto
    next
      case (Inr filename)
      let ?w1 = "w\<lparr>sessions := (sessions w)
                    [r := AList.update filename
                       \<lparr>purpose = p, status = ''planned'',
                        dependencies = extract_file_dependencies sv f,
                        generated_code = None\<rparr>
                       (sessions w ! r)]\<rparr>"
      from Cons.prems p Inr have "plan_session sv fs r ?w1 = (res, w')" by simp
      from Cons.IH[OF this] Inr show ?thesis
        by (auto simp: subscript_def split: option.splits)
    qed
  qed
qed

lemma build_generation_context_result:
  assumes "build_generation_context sv pl rag existing w = (res, w')"
  shows "res = Inr ctx \<Longrightarrow> generation_session ctx = length (sessions w)
           \<and> length (sessions w') = Suc (length (sessions w))
           \<and> plan ctx = pl
           \<and> (\<forall>fs. files pl = Some fs \<longrightarrow> (\<forall>f \<in> set fs. map_of f ''filename'' \<noteq> None))"
    and "\<forall>r < length (sessions w). sessions w' ! r = sessions w ! r"
    and "trace w' = trace w"
proof -
  let ?fs = "case files pl of None \<Rightarrow> [] | Some fs \<Rightarrow> fs"
  let ?w1 = "w\<lparr>sessions := sessions w @ [[]]\<rparr>"
  obtain r2 w2 where ps: "plan_session sv ?fs (length (sessions w)) ?w1 = (r2, w2)"
    by (cases "plan_session sv ?fs (length (sessions w)) ?w1")
  note psr = plan_session_result[OF ps]
  show "generation_session ctx = length (sessions w)
           \<and> length (sessions w') = Suc (length (sessions w))
           \<and> plan ctx = pl
           \<and> (\<forall>fs. files pl = Some fs \<longrightarrow> (\<forall>f \<in> set fs. map_of f ''filename'' \<noteq> None))"
    if "res = Inr ctx"
    using assms that ps psr
    by (auto simp: build_generation_context_def Let_def split: sum.splits)
  show "\<forall>r < length (sessions w). sessions w' ! r = sessions w ! r"
    using assms ps psr
    by (auto simp: build_generation_context_def Let_def nth_append split: sum.splits)
  show "trace w' = trace w"
    using assms ps psr
    by (auto simp: build_generation_context_def Let_def split: sum.splits)
qed

lemma planned_filenames_all:
  assumes "files pl = Some fs" and "\<forall>f \<in> set fs. map_of f ''filename'' \<noteq> None"
  shows "length (planned_filenames pl) = length fs"
proof -
  have "length (List.map_filter (\<lambda>f. map_of f ''filename'') xs) = length xs"
    if "\<forall>f \<in> set xs. map_of f ''filename'' \<noteq> None" for xs :: "file_info list"
    using that by (induction xs) (auto simp: List.map_filter_simps split: option.splits)
  with assms show ?thesis by (simp add: planned_filenames_def)
qed

lemma coordinate_generation_try_unfold:
  assumes "build_generation_context sv pl rag existing (start_run w) = (Inr ctx, w2)"
    and "plan_generation_order sv ctx (sessions w2 ! generation_session ctx) = Inr order"
  shows "coordinate_generation_try sv pl rag existing cp w =
           (case generation_loop sv pl (case cp of None \<Rightarrow> [] | Some c \<Rightarrow> c)
                   (length order) 0 order ([], ctx) w2 of
              (Inl e, w3) \<Rightarrow> (Inl e, w3)
            | (Inr (gen, ctx'), w3) \<Rightarrow> (Inr gen, finish_run (length gen) (length order) w3))"
  using assms by (simp add: coordinate_generation_try_def Let_def)

section \<open>Properties\<close>

text \<open>
  C1. When the context is built, the planner returns an order and the loop runs to its
  end (no exception leaves it), \<^verbatim>\<open>coordinate_generation\<close> returns this run's output
  dictionary. Its keys are pairwise distinct and are exactly the filenames of the order
  that the plan knows: a filename absent from the plan gets no entry. When every planned
  filename appears in the order, the keys are exactly the planned filenames and their
  number is the number of planned artifacts (an artifact being identified by its
  filename); when moreover the plan names no file twice, that number is the number \<open>N\<close>
  of entries of \<^verbatim>\<open>plan["files"]\<close>.
\<close>

theorem result_entries:
  assumes "build_generation_context sv pl rag existing (start_run w) = (Inr ctx, w2)"
    and "plan_generation_order sv ctx (sessions w2 ! generation_session ctx) = Inr order"
    and "generation_loop sv pl (case cp of None \<Rightarrow> [] | Some c \<Rightarrow> c)
           (length order) 0 order ([], ctx) w2 = (Inr (gen, ctx'), w3)"
  shows "fst (coordinate_generation sv pl rag existing cp w) = gen
       \<and> distinct (map fst gen)
       \<and> set (map fst gen) = set order \<inter> set (planned_filenames pl)
       \<and> (\<forall>f. f \<notin> set (planned_filenames pl) \<longrightarrow> map_of gen f = None)
       \<and> (set (planned_filenames pl) \<subseteq> set order \<longrightarrow>
            set (map fst gen) = set (planned_filenames pl)
            \<and> length gen = card (set (planned_filenames pl)))
       \<and> (set (planned_filenames pl) \<subseteq> set order \<longrightarrow> distinct (planned_filenames pl) \<longrightarrow>
            (\<forall>fs. files pl = Some fs \<longrightarrow> length gen = length fs))"
proof -
  have run: "fst (coordinate_generation sv pl rag existing cp w) = gen"
    using assms by (simp add: coordinate_generation_def coordinate_generation_try_unfold)
  from generation_loop_result[OF assms(3)]
  have keys: "fst ` set gen = set order \<inter> set (planned_filenames pl)" and d: "distinct (map fst gen)"
    by simp_all
  have len: "length gen = card (set (map fst gen))"
    using distinct_card[OF d] by simp
  have absent: "map_of gen f = None" if "f \<notin> set (planned_filenames pl)" for f
    using that keys by (simp add: map_of_eq_None_iff)
  have all: "length (planned_filenames pl) = length fs" if "files pl = Some fs" for fs
    using build_generation_context_result(1)[OF assms(1) refl] that
    by (simp add: planned_filenames_all)
  have sub: "set (map fst gen) = set (planned_filenames pl)
            \<and> length gen = card (set (planned_filenames pl))"
    if "set (planned_filenames pl) \<subseteq> set order"
    using that keys len by (auto simp: Int_absorb1)
  have n: "length gen = length fs"
    if "set (planned_filenames pl) \<subseteq> set order" "distinct (planned_filenames pl)" "files pl = Some fs" for fs
    using sub[OF that(1)] distinct_card[OF that(2)] all[OF that(3)] by simp
  show ?thesis
    using run d keys absent sub n by auto
qed

theorem result_entries_witness:
  "fst (coordinate_generation test_env test_plan [] None None empty_world)
     = [(''models.py'', ''class User: pass''), (''service.py'', ''x = 1'')]
   \<and> planned_filenames test_plan = [''models.py'', ''service.py'']
   \<and> length [(''models.py'', ''class User: pass''), (''service.py'', ''x = 1'')]
       = length [[(''filename'', ''models.py''), (''purpose'', ''data models'')],
                 [(''filename'', ''service.py''), (''purpose'', ''service using models'')]]"
proof -
  let ?b = "build_generation_context test_env test_plan [] None (start_run empty_world)"
  let ?order = "[''models.py'', ''service.py'']"
  let ?l = "generation_loop test_env test_plan (case None of None \<Rightarrow> [] | Some c \<Rightarrow> c)
              (length ?order) 0 ?order ([], test_context0) (snd ?b)"
  let ?gen = "[(''models.py'', ''class User: pass''), (''service.py'', ''x = 1'')]"
  have h1: "?b = (Inr test_context0, snd ?b)"
    by (rule pair_fstI) (simp add: eval2_defs)
  have h2: "plan_generation_order test_env test_context0
              (sessions (snd ?b) ! generation_session test_context0) = Inr ?order"
    by (simp add: eval2_defs)
  have h3: "?l = (Inr (?gen, test_context0\<lparr>project_index := [(''User'', ''models'')]\<rparr>), snd ?l)"
    by (rule pair_fstI) (simp add: eval2_defs)
  have p: "planned_filenames test_plan = ?order"
    by (simp add: planned_filenames_def test_plan_def List.map_filter_simps)
  from result_entries [OF h1 h2 h3] p show ?thesis by simp
qed

text \<open>
  C2, as the code has it. When the filename ends in \<^verbatim>\<open>.py\<close> and the symbol
  extraction raises, \<^verbatim>\<open>update_session_context\<close> does not raise: it prints the
  failure and the traceback and returns the context it was given, every field as it
  was, the reference to the session record included. The session record itself is not
  restored: lines 83 to 85 ran before the extraction, so the entry of the filename, when
  there is one, stays marked completed and keeps the new code.
\<close>

theorem update_failure_amended:
  assumes "suffix ''.py'' filename"
    and "get_symbols_from_content sv code (module_path_of filename) = Inl e"
  shows "update_session_context sv ctx ((filename, code) # others) w =
           (Inr ctx,
            print_exc e
              (print (''Error updating session context for '' @ filename @ '': ''
                      @ str_of_error e)
                 (record_completed ctx filename code w)))
       \<and> trace (snd (update_session_context sv ctx ((filename, code) # others) w)) =
           trace w @ [Print (''Error updating session context for '' @ filename @ '': ''
                             @ str_of_error e), PrintExc e]
       \<and> sessions (snd (update_session_context sv ctx ((filename, code) # others) w)) =
           (if dict_contains (sessions w ! generation_session ctx) filename
            then (sessions w)
                   [generation_session ctx :=
                      AList.map_entry filename (mark_completed code)
                        (sessions w ! generation_session ctx)]
            else sessions w)"
  using assms
  by (simp add: update_cases record_completed_def Let_def print_def print_exc_def)

theorem update_failure_amended_witness:
  "update_session_context test_env test_context [(''models.py'', ''raise ValueError'')] test_world =
     (Inr test_context,
      print_exc (Raised ''invalid syntax'')
        (print (''Error updating session context for models.py: invalid syntax'')
           (record_completed test_context ''models.py'' ''raise ValueError'' test_world)))"
  using update_failure_amended [of "''models.py''" test_env "''raise ValueError''"
      "Raised ''invalid syntax''" test_context "[]" test_world]
  by (simp add: suffix_to_prefix module_path_of_def test_env_def)

text \<open>
  C2 as stated fails: the extraction of \<^verbatim>\<open>models.py\<close> raises, the call returns the
  context it was given, and the session entry of \<^verbatim>\<open>models.py\<close>, planned before the
  call, is completed after it.
\<close>

theorem update_failure_counterexample:
  "fst (update_session_context test_env test_context [(''models.py'', ''raise ValueError'')]
          test_world) = Inr test_context
   \<and> map_option status (map_of (sessions test_world ! generation_session test_context)
        ''models.py'') = Some ''planned''
   \<and> map_option status
        (map_of (sessions (snd (update_session_context test_env test_context
                                  [(''models.py'', ''raise ValueError'')] test_world))
                 ! generation_session test_context) ''models.py'') = Some ''completed''
   \<and> sessions (snd (update_session_context test_env test_context
                       [(''models.py'', ''raise ValueError'')] test_world))
       \<noteq> sessions test_world"
  by (simp add: eval_defs)



text \<open>
  C4, as the code has it. For a language tag made of letters, digits and underscores
  (possibly empty) and a text that nowhere has a line feed followed by three backticks,
  cleaning the fenced text gives the text trimmed, whatever the tag.
\<close>

theorem clean_fenced:
  assumes "list_all word_char tag" and "\<not> contains T (nl # fence)"
  shows "robust_clean_llm_output (fenced tag T) = strip T"
proof -
  have "match_at (fenced tag T) = Some T"
    using assms by (simp add: match_at_fenced lazy_body_closing)
  then have "search (fenced tag T) = Some T"
    by (rule search_head)
  then show ?thesis
    by (simp add: robust_clean_llm_output_def strip_fenced)
qed

theorem clean_fenced_witness:
  "robust_clean_llm_output (fenced ''python'' ''  print(1) '') = ''print(1)''
   \<and> robust_clean_llm_output (fenced [] ''  print(1) '') = ''print(1)''"
  using clean_fenced [of "''python''" "''  print(1) ''"] clean_fenced [of "[]" "''  print(1) ''"]
  by (simp add: string_defs)

text \<open>
  C4 as stated fails twice. The group of the pattern is lazy: when the text itself
  has a line that starts with three backticks, the match stops there and the rest of the
  text is lost. And the pattern only knows tags of letters, digits and underscores: with
  the tag \<^verbatim>\<open>c++\<close> nothing matches and the fence stays in the result.
\<close>

theorem clean_fenced_counterexample:
  "robust_clean_llm_output (fenced [] (''a'' @ [nl] @ fence @ [nl] @ ''b'')) = ''a''
   \<and> strip (''a'' @ [nl] @ fence @ [nl] @ ''b'') = ''a'' @ [nl] @ fence @ [nl] @ ''b''
   \<and> robust_clean_llm_output (fenced [] (''a'' @ [nl] @ fence @ [nl] @ ''b''))
       \<noteq> strip (''a'' @ [nl] @ fence @ [nl] @ ''b'')
   \<and> robust_clean_llm_output (fenced ''c++'' ''x'') = fenced ''c++'' ''x''
   \<and> robust_clean_llm_output (fenced ''c++'' ''x'') \<noteq> strip ''x''"
  by (simp add: robust_clean_llm_output_def fenced_def match_at_def string_defs)




text \<open>
  C6. When an exception leaves the loop (the context was built and the planner returned
  an order, so the exception is not a failure that an iteration handled),
  \<^verbatim>\<open>coordinate_generation\<close> logs it and returns the empty dictionary, whatever the
  iterations before had produced. The exceptions of the model are those that
  \<^verbatim>\<open>except Exception\<close> catches.
\<close>

theorem loop_exception_aborts:
  assumes "build_generation_context sv pl rag existing (start_run w) = (Inr ctx, w2)"
    and "plan_generation_order sv ctx (sessions w2 ! generation_session ctx) = Inr order"
    and "generation_loop sv pl (case cp of None \<Rightarrow> [] | Some c \<Rightarrow> c)
           (length order) 0 order ([], ctx) w2 = (Inl e, w3)"
  shows "coordinate_generation sv pl rag existing cp w = ([], abort_run e w3)"
  using assms by (simp add: coordinate_generation_def coordinate_generation_try_unfold)

theorem loop_exception_aborts_witness:
  "fst (generation_loop test_env test_plan_md [(''.md'', ''{unknown}'')] 2 0 [''models.py'']
          ([], test_context0\<lparr>plan := test_plan_md\<rparr>)
          (snd (build_generation_context test_env test_plan_md [] None (start_run empty_world))))
     = Inr ([(''models.py'', ''class User: pass'')],
            test_context0\<lparr>plan := test_plan_md, project_index := [(''User'', ''models'')]\<rparr>)
   \<and> fst (coordinate_generation test_env test_plan_md [] None (Some [(''.md'', ''{unknown}'')]) empty_world)
       = []"
proof -
  let ?b = "build_generation_context test_env test_plan_md [] None (start_run empty_world)"
  let ?ctx = "test_context0\<lparr>plan := test_plan_md\<rparr>"
  let ?order = "[''models.py'', ''README.md'']"
  let ?l = "generation_loop test_env test_plan_md
              (case Some [(''.md'', ''{unknown}'')] of None \<Rightarrow> [] | Some c \<Rightarrow> c)
              (length ?order) 0 ?order ([], ?ctx) (snd ?b)"
  have h1: "?b = (Inr ?ctx, snd ?b)"
    by (rule pair_fstI) (simp add: eval2_defs test_plan_md_def)
  have h2: "plan_generation_order test_env ?ctx (sessions (snd ?b) ! generation_session ?ctx)
              = Inr ?order"
    by (simp add: eval2_defs test_plan_md_def)
  have h3: "?l = (Inl (KeyError ''unknown''), snd ?l)"
    by (rule pair_fstI) (simp add: eval2_defs test_plan_md_def)
  have first: "fst (generation_loop test_env test_plan_md [(''.md'', ''{unknown}'')] 2 0 [''models.py'']
          ([], ?ctx) (snd ?b))
     = Inr ([(''models.py'', ''class User: pass'')],
            test_context0\<lparr>plan := test_plan_md, project_index := [(''User'', ''models'')]\<rparr>)"
    by (simp add: eval2_defs test_plan_md_def)
  from loop_exception_aborts [OF h1 h2 h3] first show ?thesis by simp
qed

text \<open>
  C7, as the code has it. For a file whose extension is \<^verbatim>\<open>.tscn\<close> the strategy calls
  no model: the only effect is one log line, and the content is
  \<^verbatim>\<open>create_tscn_content\<close> of the node type read from the purpose and of the filename
  with \<^verbatim>\<open>.gd\<close> for \<^verbatim>\<open>.tscn\<close>. It contains the path of the companion script, and it
  is a function of the filename, the purpose and Python's \<^verbatim>\<open>hash\<close> of the
  interpreter process, from which the identifiers are derived: two calls under the same
  \<^verbatim>\<open>hash\<close> return the same content, whatever the context, the other files, the
  custom prompts, the other collaborators and the world. The witness is the scenario of
  \<^verbatim>\<open>player.tscn\<close>.
\<close>

theorem tscn_strategy:
  assumes "map_of file_info ''filename'' = Some filename"
    and "map_of file_info ''purpose'' = Some p"
    and "Path_suffix filename = ''.tscn''"
  shows "generate_single_file sv file_info ctx other_generated_files custom_prompts w =
           (Inr (Some (create_tscn_content sv (extract_node_type_from_purpose p)
                         (replace ''.tscn'' ''.gd'' filename))),
            w\<lparr>trace := trace w @
                 [Emit ''log_message_received''
                    [''GenerationCoordinator'', ''info'',
                     ''Programmatically generating placeholder scene for '' @ filename]]\<rparr>)
         \<and> contains (create_tscn_content sv (extract_node_type_from_purpose p)
                       (replace ''.tscn'' ''.gd'' filename))
              (''path='' @ [dquote] @ ''res://'' @ replace ''.tscn'' ''.gd'' filename @ [dquote])
         \<and> (\<forall>sv' ctx' other' custom_prompts' w'.
               hash sv' = hash sv \<longrightarrow>
               fst (generate_single_file sv' file_info ctx' other' custom_prompts' w')
                 = fst (generate_single_file sv file_info ctx other_generated_files
                          custom_prompts w))"
proof -
  have c: "contains (create_tscn_content sv nt sp)
             (''path='' @ [dquote] @ ''res://'' @ sp @ [dquote])" for nt sp
    unfolding create_tscn_content_def Let_def
    using contains_append[of "''[gd_scene load_steps=2 format=3 uid='' @ [dquote] @ ''uid://b''
           @ uid_number sv (nt @ sp) @ [dquote] @ '']'' @ [nl, nl]
         @ ''[ext_resource type='' @ [dquote] @ ''Script'' @ [dquote] @ '' ''"
         "''path='' @ [dquote] @ ''res://'' @ sp @ [dquote]"]
    by simp
  have g: "fst (generate_single_file sa file_info ca oa pa wa)
             = Inr (Some (create_tscn_content sa (extract_node_type_from_purpose p)
                            (replace ''.tscn'' ''.gd'' filename)))" for sa ca oa pa wa
    using assms by (simp add: generate_single_file_def subscript_Some Let_def)
  have h: "create_tscn_content sa nt sp = create_tscn_content sv nt sp"
    if "hash sa = hash sv" for sa nt sp
    using that by (simp add: create_tscn_content_def uid_number_def)
  have 1: "generate_single_file sv file_info ctx other_generated_files custom_prompts w =
           (Inr (Some (create_tscn_content sv (extract_node_type_from_purpose p)
                         (replace ''.tscn'' ''.gd'' filename))),
            w\<lparr>trace := trace w @
                 [Emit ''log_message_received''
                    [''GenerationCoordinator'', ''info'',
                     ''Programmatically generating placeholder scene for '' @ filename]]\<rparr>)"
    using assms by (simp add: generate_single_file_def subscript_Some log_message_def emit_def)
  have 3: "fst (generate_single_file sa file_info ca oa pa wa)
                 = fst (generate_single_file sv file_info ctx other_generated_files
                          custom_prompts w)"
    if "hash sa = hash sv" for sa ca oa pa wa
    using h[OF that] by (simp add: g)
  show ?thesis
    using 1 c 3 by blast
qed

theorem tscn_strategy_witness:
  "Path_suffix ''player.tscn'' = ''.tscn''
   \<and> fst (generate_single_file test_env
            [(''filename'', ''player.tscn''), (''purpose'', ''Extends CharacterBody2D'')]
            test_context0 [] [] empty_world)
       = Inr (Some (create_tscn_content test_env ''CharacterBody2D'' ''player.gd''))
   \<and> trace (snd (generate_single_file test_env
            [(''filename'', ''player.tscn''), (''purpose'', ''Extends CharacterBody2D'')]
            test_context0 [] [] empty_world))
       = [Emit ''log_message_received''
            [''GenerationCoordinator'', ''info'',
             ''Programmatically generating placeholder scene for player.tscn'']]
   \<and> create_tscn_content test_env ''CharacterBody2D'' ''player.gd''
       = ''[gd_scene load_steps=2 format=3 uid='' @ [dquote] @ ''uid://b24'' @ [dquote] @ '']''
         @ [nl, nl]
         @ ''[ext_resource type='' @ [dquote] @ ''Script'' @ [dquote]
         @ '' path='' @ [dquote] @ ''res://player.gd'' @ [dquote]
         @ '' id='' @ [dquote] @ ''1_uid://b9'' @ [dquote] @ '']'' @ [nl, nl]
         @ ''[node name='' @ [dquote] @ ''Player'' @ [dquote]
         @ '' type='' @ [dquote] @ ''CharacterBody2D'' @ [dquote] @ '']'' @ [nl]
         @ ''script = ExtResource('' @ [dquote] @ ''1_uid://b9'' @ [dquote] @ '')'' @ [nl]"
proof -
  have s: "Path_suffix ''player.tscn'' = ''.tscn''"
    by (simp add: string_defs)
  have n: "extract_node_type_from_purpose ''Extends CharacterBody2D'' = ''CharacterBody2D''"
    by (simp add: extract_node_type_from_purpose_def node_type_at_def string_defs)
  have r: "replace ''.tscn'' ''.gd'' ''player.tscn'' = ''player.gd''"
    by simp
  have c: "create_tscn_content test_env ''CharacterBody2D'' ''player.gd''
       = ''[gd_scene load_steps=2 format=3 uid='' @ [dquote] @ ''uid://b24'' @ [dquote] @ '']''
         @ [nl, nl]
         @ ''[ext_resource type='' @ [dquote] @ ''Script'' @ [dquote]
         @ '' path='' @ [dquote] @ ''res://player.gd'' @ [dquote]
         @ '' id='' @ [dquote] @ ''1_uid://b9'' @ [dquote] @ '']'' @ [nl, nl]
         @ ''[node name='' @ [dquote] @ ''Player'' @ [dquote]
         @ '' type='' @ [dquote] @ ''CharacterBody2D'' @ [dquote] @ '']'' @ [nl]
         @ ''script = ExtResource('' @ [dquote] @ ''1_uid://b9'' @ [dquote] @ '')'' @ [nl]"
    by (simp add: create_tscn_content_def uid_number_def test_env_def str_of_nat.simps
        string_defs Let_def)
  from tscn_strategy [of "[(''filename'', ''player.tscn''), (''purpose'', ''Extends CharacterBody2D'')]"
      "''player.tscn''" "''Extends CharacterBody2D''" test_env test_context0 "[]" "[]" empty_world]
    s n r c
  show ?thesis by (simp add: empty_world_def)
qed

text \<open>
  C7 as stated fails: the identifiers are not derived from the path alone. The same
  \<^verbatim>\<open>player.tscn\<close> with the same purpose gives one document under one salt of
  \<^verbatim>\<open>hash\<close> and another document under another salt, so the content is not a
  function of the filename and the purpose alone and the identifier is not stable from
  one run of the program to the next.
\<close>

theorem tscn_strategy_counterexample:
  "fst (generate_single_file test_env
          [(''filename'', ''player.tscn''), (''purpose'', ''Extends CharacterBody2D'')]
          test_context0 [] [] empty_world)
     \<noteq> fst (generate_single_file salted_env
              [(''filename'', ''player.tscn''), (''purpose'', ''Extends CharacterBody2D'')]
              test_context0 [] [] empty_world)
   \<and> uid_number test_env ''player.gd'' = ''9''
   \<and> uid_number salted_env ''player.gd'' = ''10''"
  by (simp add: eval2_defs salted_env_def)

text \<open>
  C8. One session record per run: \<^verbatim>\<open>build_generation_context\<close> creates exactly one
  record, at a fresh reference, which the context it returns holds; the loop creates no
  record, whether it ends or raises, and the context it ends with holds the same
  reference; and \<^verbatim>\<open>update_session_context\<close>, on any context and input, creates no
  record and returns a context with the reference of the context it was given.
\<close>

theorem one_session_record:
  assumes "build_generation_context sv pl rag existing w = (Inr ctx0, w1)"
    and "generation_loop sv pl cp tot i order (gen, ctx0) w1 = (res, w2)"
  shows "generation_session ctx0 = length (sessions w)
       \<and> length (sessions w1) = Suc (length (sessions w))
       \<and> length (sessions w2) = Suc (length (sessions w))
       \<and> (\<forall>gen' ctx. res = Inr (gen', ctx) \<longrightarrow> generation_session ctx = generation_session ctx0)
       \<and> (\<forall>c newly wa r wb. update_session_context sv c newly wa = (r, wb) \<longrightarrow>
            length (sessions wb) = length (sessions wa)
            \<and> (\<forall>c'. r = Inr c' \<longrightarrow> generation_session c' = generation_session c))"
proof -
  note b = build_generation_context_result(1)[OF assms(1) refl]
  have l: "length (sessions w2) = length (sessions w1)"
    using generation_loop_sessions[OF assms(2)] .
  have r: "generation_session ctx = generation_session ctx0" if "res = Inr (gen', ctx)" for gen' ctx
    using generation_loop_result[of sv pl cp tot i order gen ctx0 w1 gen' ctx w2] assms(2) that
    by simp
  have u: "length (sessions wb) = length (sessions wa)
            \<and> (\<forall>c'. r = Inr c' \<longrightarrow> generation_session c' = generation_session c)"
    if "update_session_context sv c newly wa = (r, wb)" for c newly wa r wb
    using update_session_context_ref[OF that] by simp
  show ?thesis using b l r u by simp
qed

theorem one_session_record_witness:
  "generation_session test_context0 = length (sessions (start_run empty_world))
   \<and> length (sessions (snd (build_generation_context test_env test_plan [] None (start_run empty_world))))
       = Suc (length (sessions (start_run empty_world)))
   \<and> length (sessions (snd (generation_loop test_env test_plan [] 2 0
                               [''models.py'', ''service.py''] ([], test_context0)
                               (snd (build_generation_context test_env test_plan [] None
                                       (start_run empty_world))))))
       = Suc (length (sessions (start_run empty_world)))"
proof -
  let ?b = "build_generation_context test_env test_plan [] None (start_run empty_world)"
  let ?l = "generation_loop test_env test_plan [] 2 0 [''models.py'', ''service.py'']
              ([], test_context0) (snd ?b)"
  have h1: "?b = (Inr test_context0, snd ?b)"
    by (rule pair_fstI) (simp add: eval2_defs)
  have h2: "?l = (fst ?l, snd ?l)"
    by simp
  from one_session_record [OF h1 h2] show ?thesis by simp
qed

text \<open>
  C9. For every rounding \<open>r\<close> of real numbers to floats that is monotone and leaves 0
  and 1 as they are, the relevance score is the fraction of the keywords that occur in
  the lowercased text times \<open>min(1, wordCount / 100)\<close>, each operation rounded as the
  code computes it; it is 0 when the text or the keyword set is empty, and it lies
  between 0 and 1. With exact arithmetic (the witness) it is the formula itself.
\<close>

theorem relevance_formula:
  assumes "mono r" and "r 0 = 0" and "r 1 = 1"
  shows "calculate_text_relevance r text K =
           r (r (real (fcard (ffilter (\<lambda>keyword. contains (lower text) keyword) K))
                 / real (fcard K))
              * min 1 (r (real (length (split_whitespace text)) / 100)))
         \<and> (text = [] \<or> K = {||} \<longrightarrow> calculate_text_relevance r text K = 0)
         \<and> 0 \<le> calculate_text_relevance r text K
         \<and> calculate_text_relevance r text K \<le> 1"
proof -
  let ?m = "real (fcard (ffilter (\<lambda>keyword. contains (lower text) keyword) K))"
  let ?k = "real (fcard K)"
  let ?w = "real (length (split_whitespace text))"
  let ?f = "r (r (?m / ?k) * min 1 (r (?w / 100)))"
  have r_ge: "0 \<le> r x" if "0 \<le> x" for x
    using monoD[OF assms(1) that] assms(2) by simp
  have r_le: "r x \<le> 1" if "x \<le> 1" for x
    using monoD[OF assms(1) that] assms(3) by simp
  have "?m \<le> ?k"
    using matches_le[of _ K] by simp
  moreover have "K = {||} \<or> 0 < fcard K"
    by (cases "fcard K") auto
  ultimately have mk: "0 \<le> ?m / ?k" "?m / ?k \<le> 1"
    by (auto simp: divide_le_eq_1)
  have b: "0 \<le> r (?m / ?k)" "r (?m / ?k) \<le> 1"
    using mk r_ge r_le by simp_all
  have l: "0 \<le> min 1 (r (?w / 100))" "min 1 (r (?w / 100)) \<le> 1"
    using r_ge[of "?w / 100"] by simp_all
  have p: "0 \<le> r (?m / ?k) * min 1 (r (?w / 100))" "r (?m / ?k) * min 1 (r (?w / 100)) \<le> 1"
    using b l by (simp_all add: mult_le_one)
  have f: "0 \<le> ?f" "?f \<le> 1"
    using p r_ge r_le by simp_all
  have eq: "calculate_text_relevance r text K = ?f"
  proof (cases "text = [] \<or> K = {||} \<or> split_whitespace text = []")
    case True
    then have z: "?f = 0"
      using assms(2) by (auto simp: split_whitespace_def lower_def fcard_fempty)
    from True have "calculate_text_relevance r text K = 0"
      by (auto simp: calculate_text_relevance_def Let_def)
    with z show ?thesis by simp
  next
    case False
    then show ?thesis
      by (auto simp: calculate_text_relevance_def Let_def)
  qed
  have zero: "calculate_text_relevance r text K = 0" if "text = [] \<or> K = {||}"
    using that by (auto simp: calculate_text_relevance_def)
  show ?thesis
    using eq f zero by auto
qed

theorem relevance_formula_witness:
  "calculate_text_relevance (\<lambda>x. x) ''data models'' {|''data'', ''zebra''|} = 1 / 100
   \<and> calculate_text_relevance (\<lambda>x. x) [] {|''data''|} = 0
   \<and> calculate_text_relevance (\<lambda>x. x) ''data models'' {||} = 0"
  using relevance_formula [of "\<lambda>x. x" "''data models''" "{|''data'', ''zebra''|}"]
  by (simp add: calculate_text_relevance_def string_defs fcard_finsert_if ffilter_finsert
      ffilter_fempty)

text \<open>
  C10. When the filename is not a key of the session record, \<^verbatim>\<open>update_session_context\<close>
  leaves the session store as it is (no entry added, none changed); and when the
  filename ends in \<^verbatim>\<open>.py\<close> and the extraction returns symbols, the index of the
  returned context is the index before merged with them: every extracted symbol is in
  it, and the other names map as before.
\<close>

theorem unknown_filename_update:
  assumes "map_of (sessions w ! generation_session ctx) filename = None"
  shows "sessions (snd (update_session_context sv ctx ((filename, code) # others) w)) = sessions w
       \<and> (\<forall>syms. suffix ''.py'' filename
              \<and> get_symbols_from_content sv code (module_path_of filename) = Inr syms \<longrightarrow>
            fst (update_session_context sv ctx ((filename, code) # others) w)
              = Inr (ctx\<lparr>project_index := dict_update (project_index ctx) syms\<rparr>)
            \<and> (\<forall>s. map_of syms s \<noteq> None \<longrightarrow>
                 map_of (dict_update (project_index ctx) syms) s = map_of (rev syms) s)
            \<and> (\<forall>s. map_of syms s = None \<longrightarrow>
                 map_of (dict_update (project_index ctx) syms) s = map_of (project_index ctx) s))"
proof -
  have r: "record_completed ctx filename code w = w"
    using assms by (simp add: record_completed_def dict_contains_def)
  have 1: "sessions (snd (update_session_context sv ctx ((filename, code) # others) w)) = sessions w"
    by (simp add: update_cases r split: sum.splits)
  have 2: "fst (update_session_context sv ctx ((filename, code) # others) w)
              = Inr (ctx\<lparr>project_index := dict_update (project_index ctx) syms\<rparr>)"
    if "suffix ''.py'' filename" "get_symbols_from_content sv code (module_path_of filename) = Inr syms"
    for syms
    using that by (simp add: update_cases)
  show ?thesis
    using 1 2 by (simp add: dict_update_new dict_update_keep)
qed

theorem unknown_filename_update_witness:
  "map_of (sessions test_world ! generation_session test_context) ''extra.py'' = None
   \<and> sessions (snd (update_session_context test_env test_context
                       [(''extra.py'', ''class User: pass'')] test_world)) = sessions test_world
   \<and> fst (update_session_context test_env test_context
            [(''extra.py'', ''class User: pass'')] test_world)
       = Inr (test_context\<lparr>project_index := [(''Helper'', ''utils''), (''User'', ''extra'')]\<rparr>)"
proof -
  have a: "map_of (sessions test_world ! generation_session test_context) ''extra.py'' = None"
    by (simp add: test_world_def test_context_def test_session_def)
  have s: "suffix ''.py'' ''extra.py''"
    by (simp add: suffix_to_prefix)
  have g: "get_symbols_from_content test_env ''class User: pass'' (module_path_of ''extra.py'')
             = Inr [(''User'', ''extra'')]"
    by (simp add: test_env_def module_path_of_def)
  have d: "dict_update (project_index test_context) [(''User'', ''extra'')]
             = [(''Helper'', ''utils''), (''User'', ''extra'')]"
    by (simp add: dict_update_def test_context_def)
  from unknown_filename_update [OF a, of test_env "''class User: pass''" "[]"] s g d a
  show ?thesis by simp
qed

end
